theory Spec2Isabelle
  imports Complex_Main
begin

section \<open>Exceptions and the files seen by the scripts\<close>

text \<open>
  The two scripts (\<^verbatim>\<open>3_randomforest.py\<close> and \<^verbatim>\<open>randomforest.py\<close>) raise nothing of
  their own and catch nothing: every failure is a Python or library exception. A
  computation that may raise returns \<open>py_error + 'a\<close>, with \<open>Inl\<close> the exception.
\<close>

datatype py_error =
    FileNotFoundError
  | RasterioIOError
  | ParseError
  | IndexError
  | ValueError
  | UnboundLocalError
  | AttributeError
  | LibraryError string

text \<open>
  An element of \<^verbatim>\<open>xml.etree.ElementTree\<close>: its tag, its text (\<^verbatim>\<open>None\<close> when the
  element has no character data before its first child) and its children in document
  order. Attributes and tails are not read by the scripts.
\<close>

datatype element = Element (tag: string) (elem_text: "string option") (children: "element list")

text \<open>
  A raster file as the raster libraries present it: \<open>width\<close> columns, \<open>height\<close> rows
  and the bands, each band the row-major list of its \<open>height * width\<close> samples.
\<close>

record dataset =
  width :: nat
  height :: nat
  bands :: "int list list"

definition wf_dataset :: "dataset \<Rightarrow> bool" where
  "wf_dataset ds \<longleftrightarrow>
     0 < width ds \<and> 0 < height ds \<and>
     list_all (\<lambda>b. length b = height ds * width ds) (bands ds)"

text \<open>
  The outcome of each library call that opens a path. \<open>open_text\<close> is the text that
  \<^verbatim>\<open>open(path)\<close> decodes (newlines already translated to \<^verbatim>\<open>\n\<close>, characters
  standing for code points below 256), \<open>rasterio_open\<close> is \<^verbatim>\<open>rasterio.open\<close>,
  \<open>ET_parse\<close> is the root of \<^verbatim>\<open>ET.parse(path)\<close>, and \<open>gdal_Open\<close> is
  \<^verbatim>\<open>gdal.Open\<close>, which returns \<^verbatim>\<open>None\<close> for a file it cannot open.
\<close>

record world =
  open_text :: "string \<Rightarrow> py_error + string"
  rasterio_open :: "string \<Rightarrow> py_error + dataset"
  ET_parse :: "string \<Rightarrow> py_error + element"
  gdal_Open :: "string \<Rightarrow> dataset option"

section \<open>Annotations: \<^verbatim>\<open>extract_classification\<close>\<close>

text \<open>
  \<^verbatim>\<open>Element.iter(tag)\<close>: the element itself when its tag matches (or the tag is
  \<^verbatim>\<open>*\<close>), then the matches of every child, in document order.
\<close>

fun iter :: "string \<Rightarrow> element \<Rightarrow> element list" where
  "iter t (Element tg tx cs) =
     (if t = ''*'' \<or> tg = t then [Element tg tx cs] else []) @ concat (map (iter t) cs)"

text \<open>Every element of a document, the root first, in document order.\<close>

fun elements :: "element \<Rightarrow> element list" where
  "elements (Element tg tx cs) = Element tg tx cs # concat (map elements cs)"

text \<open>
  The loop \<^verbatim>\<open>for elem in root.iter('name'): classification = elem.text\<close>. The local
  variable is \<open>None\<close> while it is unbound.
\<close>

fun classification_loop :: "string option option \<Rightarrow> element list \<Rightarrow> string option option" where
  "classification_loop classification [] = classification"
| "classification_loop classification (elem # rest) = classification_loop (Some (elem_text elem)) rest"

definition extract_classification :: "world \<Rightarrow> string \<Rightarrow> py_error + string option" where
  "extract_classification w label =
     (case ET_parse w label of
        Inl e \<Rightarrow> Inl e
      | Inr root_elem \<Rightarrow>
          (case classification_loop None (iter ''name'' root_elem) of
             None \<Rightarrow> Inl UnboundLocalError
           | Some classification \<Rightarrow> Inr classification))"

text \<open>The label loop of \<^verbatim>\<open>randomforest.py\<close>: every \<^verbatim>\<open>name\<close> element appends its text.\<close>

fun rf_labels_loop :: "world \<Rightarrow> string option list \<Rightarrow> string list \<Rightarrow> py_error + string option list" where
  "rf_labels_loop w labels [] = Inr labels"
| "rf_labels_loop w labels (label # rest) =
     (case ET_parse w label of
        Inl e \<Rightarrow> Inl e
      | Inr root_elem \<Rightarrow> rf_labels_loop w (labels @ map elem_text (iter ''name'' root_elem)) rest)"

section \<open>The map file: \<^verbatim>\<open>get_training_data\<close>\<close>

definition bind_result :: "py_error + 'a \<Rightarrow> ('a \<Rightarrow> py_error + 'b) \<Rightarrow> py_error + 'b" where
  "bind_result r f = (case r of Inl e \<Rightarrow> Inl e | Inr x \<Rightarrow> f x)"

definition newline :: char where
  "newline = CHR 0x0A"

definition backslash :: char where
  "backslash = CHR 0x5C"

text \<open>The characters below code point 256 that \<^verbatim>\<open>str.split()\<close> treats as whitespace.\<close>

definition is_space :: "char \<Rightarrow> bool" where
  "is_space c \<longleftrightarrow> (of_char c :: nat) \<in> {9, 10, 11, 12, 13, 28, 29, 30, 31, 32, 133, 160}"

text \<open>\<^verbatim>\<open>file.readlines()\<close>: the text cut after every newline, each line keeping its newline.\<close>

fun readlines_acc :: "string \<Rightarrow> string \<Rightarrow> string list" where
  "readlines_acc cur [] = (if cur = [] then [] else [cur])"
| "readlines_acc cur (c # cs) =
     (if c = newline then (cur @ [c]) # readlines_acc [] cs else readlines_acc (cur @ [c]) cs)"

definition readlines :: "string \<Rightarrow> string list" where
  "readlines content = readlines_acc [] content"

text \<open>\<^verbatim>\<open>line.strip('\n')\<close> removes every newline at both ends.\<close>

definition strip_newline :: "string \<Rightarrow> string" where
  "strip_newline s = rev (dropWhile (\<lambda>c. c = newline) (rev (dropWhile (\<lambda>c. c = newline) s)))"

text \<open>\<^verbatim>\<open>element.replace('\\', '/')\<close>.\<close>

definition replace_backslash :: "string \<Rightarrow> string" where
  "replace_backslash s = map (\<lambda>c. if c = backslash then CHR ''/'' else c) s"

text \<open>\<^verbatim>\<open>str.split()\<close> with no separator: the maximal runs of non-whitespace characters.\<close>

fun split_acc :: "string \<Rightarrow> string \<Rightarrow> string list" where
  "split_acc cur [] = (if cur = [] then [] else [cur])"
| "split_acc cur (c # cs) =
     (if is_space c then (if cur = [] then split_acc [] cs else cur # split_acc [] cs)
      else split_acc (cur @ [c]) cs)"

definition py_split :: "string \<Rightarrow> string list" where
  "py_split s = split_acc [] s"

text \<open>List indexing with a non-negative index: out of range raises \<^verbatim>\<open>IndexError\<close>.\<close>

definition py_index :: "'a list \<Rightarrow> nat \<Rightarrow> py_error + 'a" where
  "py_index xs i = (if i < length xs then Inr (xs ! i) else Inl IndexError)"

text \<open>The tokens of a line of the map file, as the loop body computes them.\<close>

definition line_tokens :: "string \<Rightarrow> string list" where
  "line_tokens line = py_split (replace_backslash (strip_newline line))"

text \<open>
  The loop over the lines. \<open>prefix\<close> is what is put before both tokens:
  \<^verbatim>\<open>path_to_data + '/'\<close> in \<^verbatim>\<open>3_randomforest.py\<close>, a fixed directory in
  \<^verbatim>\<open>randomforest.py\<close>.
\<close>

fun map_file_loop ::
  "string \<Rightarrow> string list \<times> string list \<Rightarrow> string list \<Rightarrow> py_error + (string list \<times> string list)" where
  "map_file_loop prefix (image_path, label_path) [] = Inr (image_path, label_path)"
| "map_file_loop prefix (image_path, label_path) (line # rest) =
     (case py_index (line_tokens line) 0 of
        Inl e \<Rightarrow> Inl e
      | Inr first \<Rightarrow>
          (case py_index (line_tokens line) 1 of
             Inl e \<Rightarrow> Inl e
           | Inr second \<Rightarrow>
               map_file_loop prefix
                 (image_path @ [prefix @ first], label_path @ [prefix @ second]) rest))"

definition get_training_data :: "world \<Rightarrow> string \<Rightarrow> py_error + (string list \<times> string list)" where
  "get_training_data w path_to_data =
     bind_result (open_text w (path_to_data @ ''/map.txt''))
       (\<lambda>content. map_file_loop (path_to_data @ ''/'') ([], []) (readlines content))"

definition rf_data_dir :: string where
  "rf_data_dir = ''/home/s1885898/scratch/data/training_16_bit/''"

definition rf_get_paths :: "world \<Rightarrow> py_error + (string list \<times> string list)" where
  "rf_get_paths w =
     bind_result (open_text w ''/home/s1885898/scratch/data/training_16_bit/map.txt'')
       (\<lambda>content. map_file_loop rf_data_dir ([], []) (readlines content))"

section \<open>Arrays\<close>

text \<open>
  A two-dimensional array of shape \<open>(nrows, ncols)\<close> and a three-dimensional array of
  shape \<open>(dim0, dim1, dim2)\<close>, both with their elements in C (row-major) order.
\<close>

record 'a array2 =
  nrows :: nat
  ncols :: nat
  data2 :: "'a list"

record 'a array3 =
  dim0 :: nat
  dim1 :: nat
  dim2 :: nat
  data3 :: "'a list"

definition at2 :: "'a array2 \<Rightarrow> nat \<Rightarrow> nat \<Rightarrow> 'a" where
  "at2 a i j = data2 a ! (i * ncols a + j)"

text \<open>\<^verbatim>\<open>np.zeros([a, b, c])\<close>.\<close>

definition zeros :: "nat \<Rightarrow> nat \<Rightarrow> nat \<Rightarrow> real array3" where
  "zeros a b c = \<lparr>dim0 = a, dim1 = b, dim2 = c, data3 = replicate (a * b * c) 0\<rparr>"

text \<open>Storing integer samples into a float array converts them.\<close>

definition astype_float :: "int array2 \<Rightarrow> real array2" where
  "astype_float a = \<lparr>nrows = nrows a, ncols = ncols a, data2 = map real_of_int (data2 a)\<rparr>"

text \<open>
  \<^verbatim>\<open>rgb[:, :, ch] = v\<close>. NumPy broadcasts \<open>v\<close> to the shape \<open>(dim0, dim1)\<close> of the
  slice: each dimension of \<open>v\<close> must equal that of the slice or be 1, and a dimension
  of 1 is repeated. Otherwise the assignment raises \<^verbatim>\<open>ValueError\<close>.
\<close>

definition broadcasts_to :: "'a array2 \<Rightarrow> nat \<Rightarrow> nat \<Rightarrow> bool" where
  "broadcasts_to v r c \<longleftrightarrow> (nrows v = r \<or> nrows v = 1) \<and> (ncols v = c \<or> ncols v = 1)"

definition set_channel :: "real array3 \<Rightarrow> nat \<Rightarrow> real array2 \<Rightarrow> py_error + real array3" where
  "set_channel rgb ch v =
     (if broadcasts_to v (dim0 rgb) (dim1 rgb) then
        Inr (rgb\<lparr>data3 :=
               map (\<lambda>n. if n mod dim2 rgb = ch
                         then at2 v (if nrows v = 1 then 0 else (n div dim2 rgb) div dim1 rgb)
                                    (if ncols v = 1 then 0 else (n div dim2 rgb) mod dim1 rgb)
                         else data3 rgb ! n)
                 [0 ..< dim0 rgb * dim1 rgb * dim2 rgb]\<rparr>)
      else Inl ValueError)"

definition flatten :: "'a array3 \<Rightarrow> 'a list" where
  "flatten a = data3 a"

text \<open>\<^verbatim>\<open>alpha != 0\<close>, elementwise.\<close>

definition not_zero :: "int array2 \<Rightarrow> bool array2" where
  "not_zero a = \<lparr>nrows = nrows a, ncols = ncols a, data2 = map (\<lambda>x. x \<noteq> 0) (data2 a)\<rparr>"

text \<open>
  \<^verbatim>\<open>a[mask]\<close> with a boolean mask of the shape of \<open>a\<close>: the one-dimensional array of
  the selected elements. A mask of another shape raises \<^verbatim>\<open>IndexError\<close>.
\<close>

definition boolean_index :: "'a array2 \<Rightarrow> bool array2 \<Rightarrow> py_error + 'a list" where
  "boolean_index a selected =
     (if nrows selected = nrows a \<and> ncols selected = ncols a
      then Inr (map fst (filter snd (zip (data2 a) (data2 selected))))
      else Inl IndexError)"

text \<open>\<^verbatim>\<open>np.flipud(a)\<close>: the rows in reverse order.\<close>

definition flipud :: "'a array2 \<Rightarrow> 'a array2" where
  "flipud a =
     a\<lparr>data2 := map (\<lambda>k. data2 a ! ((nrows a - 1 - k div ncols a) * ncols a + k mod ncols a))
                   [0 ..< nrows a * ncols a]\<rparr>"

text \<open>\<^verbatim>\<open>v.reshape(a, b, c)\<close> of a one-dimensional array.\<close>

definition reshape3 :: "'a list \<Rightarrow> nat \<Rightarrow> nat \<Rightarrow> nat \<Rightarrow> py_error + 'a array3" where
  "reshape3 v a b c =
     (if length v = a * b * c then Inr \<lparr>dim0 = a, dim1 = b, dim2 = c, data3 = v\<rparr>
      else Inl ValueError)"

section \<open>The image libraries\<close>

text \<open>
  The three library routines that compute new pixel values are parameters of the
  model: \<^verbatim>\<open>skimage.transform.resize\<close> applied to a one-dimensional array and an
  output shape, \<^verbatim>\<open>cv2.getRotationMatrix2D\<close> (centre, angle, scale) and
  \<^verbatim>\<open>cv2.warpAffine\<close> (source, matrix, \<open>(width, height)\<close> of the result).
\<close>

record 'm libs =
  resize :: "int list \<Rightarrow> nat \<times> nat \<Rightarrow> py_error + real array2"
  getRotationMatrix2D :: "real \<times> real \<Rightarrow> real \<Rightarrow> real \<Rightarrow> 'm"
  warpAffine :: "real array3 \<Rightarrow> 'm \<Rightarrow> nat \<times> nat \<Rightarrow> py_error + real array3"

text \<open>
  What the documentation of \<^verbatim>\<open>cv2.warpAffine\<close> promises about the shape of its
  result: \<open>dsize = (width, height)\<close> gives \<open>height\<close> rows, \<open>width\<close> columns and the
  channels of the source.
\<close>

definition warp_shape_ok :: "'m libs \<Rightarrow> bool" where
  "warp_shape_ok L \<longleftrightarrow>
     (\<forall>src M w h r. warpAffine L src M (w, h) = Inr r \<longrightarrow>
        dim0 r = h \<and> dim1 r = w \<and> dim2 r = dim2 src \<and> length (data3 r) = h * w * dim2 src)"

section \<open>Reading a raster\<close>

text \<open>\<^verbatim>\<open>dataset.read(k)\<close> of rasterio: band \<open>k\<close> (from 1) as an array of shape (height, width).\<close>

definition dataset_read :: "dataset \<Rightarrow> nat \<Rightarrow> py_error + int array2" where
  "dataset_read ds k =
     (if 1 \<le> k \<and> k \<le> length (bands ds)
      then Inr \<lparr>nrows = height ds, ncols = width ds, data2 = bands ds ! (k - 1)\<rparr>
      else Inl IndexError)"

definition preprocess_image ::
  "world \<Rightarrow> string \<Rightarrow> py_error + (nat \<times> nat \<times> int array2 \<times> int array2 \<times> int array2 \<times> int array2)" where
  "preprocess_image w img =
     bind_result (rasterio_open w img) (\<lambda>dataset.
     bind_result (dataset_read dataset 1) (\<lambda>red.
     bind_result (dataset_read dataset 2) (\<lambda>green.
     bind_result (dataset_read dataset 3) (\<lambda>blue.
     bind_result (dataset_read dataset 4) (\<lambda>alpha.
     Inr (width dataset, height dataset, red, green, blue, alpha))))))"

text \<open>
  \<^verbatim>\<open>i.GetRasterBand(k).ReadAsArray()\<close> of GDAL: \<^verbatim>\<open>GetRasterBand\<close> returns \<^verbatim>\<open>None\<close>
  for a band that does not exist, and the method call on it raises \<^verbatim>\<open>AttributeError\<close>.
\<close>

definition GetRasterBand :: "dataset \<Rightarrow> nat \<Rightarrow> int array2 option" where
  "GetRasterBand i k =
     (if 1 \<le> k \<and> k \<le> length (bands i)
      then Some \<lparr>nrows = height i, ncols = width i, data2 = bands i ! (k - 1)\<rparr>
      else None)"

definition ReadAsArray :: "int array2 option \<Rightarrow> py_error + int array2" where
  "ReadAsArray band = (case band of None \<Rightarrow> Inl AttributeError | Some a \<Rightarrow> Inr a)"

section \<open>Feature vectors\<close>

text \<open>
  A \<^verbatim>\<open>for\<close> loop that appends the result of its body to a list, and stops at the
  first exception.
\<close>

fun append_loop :: "('a \<Rightarrow> py_error + 'b) \<Rightarrow> 'b list \<Rightarrow> 'a list \<Rightarrow> py_error + 'b list" where
  "append_loop body acc [] = Inr acc"
| "append_loop body acc (x # rest) =
     (case body x of Inl e \<Rightarrow> Inl e | Inr y \<Rightarrow> append_loop body (acc @ [y]) rest)"

text \<open>The three masked bands \<^verbatim>\<open>red[alpha != 0]\<close>, \<^verbatim>\<open>green[alpha != 0]\<close>, \<^verbatim>\<open>blue[alpha != 0]\<close>.\<close>

definition masked_bands ::
  "int array2 \<Rightarrow> int array2 \<Rightarrow> int array2 \<Rightarrow> int array2 \<Rightarrow> py_error + (int list \<times> int list \<times> int list)" where
  "masked_bands red green blue alpha =
     bind_result (boolean_index red (not_zero alpha)) (\<lambda>red_masked.
     bind_result (boolean_index green (not_zero alpha)) (\<lambda>green_masked.
     bind_result (boolean_index blue (not_zero alpha)) (\<lambda>blue_masked.
     Inr (red_masked, green_masked, blue_masked))))"

text \<open>
  The three \<^verbatim>\<open>resize\<close> calls and the stacking of their results into a fresh
  \<open>(nX, nY, 3)\<close> array.
\<close>

definition resized_rgb ::
  "'m libs \<Rightarrow> nat \<Rightarrow> nat \<Rightarrow> int list \<times> int list \<times> int list \<Rightarrow> py_error + real array3" where
  "resized_rgb L nX nY masked =
     (case masked of (red_masked, green_masked, blue_masked) \<Rightarrow>
     bind_result (resize L red_masked (nX, nY)) (\<lambda>red_resized.
     bind_result (resize L green_masked (nX, nY)) (\<lambda>green_resized.
     bind_result (resize L blue_masked (nX, nY)) (\<lambda>blue_resized.
     bind_result (set_channel (zeros nX nY 3) 0 red_resized) (\<lambda>rgb.
     bind_result (set_channel rgb 1 green_resized) (\<lambda>rgb.
     set_channel rgb 2 blue_resized))))))"

text \<open>
  The first three assignments of the loop body of \<^verbatim>\<open>preprocess_training_data\<close>:
  the bands as read, of shape (height, width), stored into an array of shape \<open>(nX, nY, 3)\<close>.
\<close>

definition unmasked_rgb ::
  "nat \<Rightarrow> nat \<Rightarrow> int array2 \<Rightarrow> int array2 \<Rightarrow> int array2 \<Rightarrow> py_error + real array3" where
  "unmasked_rgb nX nY red green blue =
     bind_result (set_channel (zeros nX nY 3) 0 (astype_float red)) (\<lambda>rgb.
     bind_result (set_channel rgb 1 (astype_float green)) (\<lambda>rgb.
     set_channel rgb 2 (astype_float blue)))"

text \<open>
  The loop body of \<^verbatim>\<open>preprocess_training_data\<close>, from the values returned by
  \<^verbatim>\<open>preprocess_image\<close>.
\<close>

type_synonym raster_values = "nat \<times> nat \<times> int array2 \<times> int array2 \<times> int array2 \<times> int array2"

definition training_vector :: "'m libs \<Rightarrow> raster_values \<Rightarrow> py_error + real list" where
  "training_vector L values =
     (case values of (nX, nY, red, green, blue, alpha) \<Rightarrow>
     bind_result (unmasked_rgb nX nY red green blue) (\<lambda>rgb.
     bind_result (masked_bands red green blue alpha) (\<lambda>masked.
     bind_result (resized_rgb L nX nY masked) (\<lambda>rgb.
     Inr (flatten rgb)))))"

text \<open>The loop body of \<^verbatim>\<open>augment_flip\<close>.\<close>

definition flip_vector :: "'m libs \<Rightarrow> raster_values \<Rightarrow> py_error + real list" where
  "flip_vector L values =
     (case values of (nX, nY, red, green, blue, alpha) \<Rightarrow>
     bind_result (masked_bands (flipud red) (flipud green) (flipud blue) (flipud alpha)) (\<lambda>masked.
     bind_result (resized_rgb L nX nY masked) (\<lambda>rgb.
     Inr (flatten rgb))))"

text \<open>The loop body of \<^verbatim>\<open>augment_flip_rotate_90\<close>.\<close>

definition rotate_vector :: "'m libs \<Rightarrow> raster_values \<Rightarrow> py_error + real list" where
  "rotate_vector L values =
     (case values of (nX, nY, red, green, blue, alpha) \<Rightarrow>
     bind_result (masked_bands red green blue alpha) (\<lambda>masked.
     bind_result (resized_rgb L nX nY masked) (\<lambda>rgb_flip.
     bind_result
       (warpAffine L rgb_flip (getRotationMatrix2D L (real nX / 2, real nY / 2) 90 1) (nY, nX))
       (\<lambda>rotated_rgb.
     Inr (flatten rotated_rgb)))))"

text \<open>
  The three data-loading functions: the loop over the images, then the loop over the
  labels.
\<close>

type_synonym loaded = "real list list \<times> string option list"

definition preprocess_training_data ::
  "'m libs \<Rightarrow> world \<Rightarrow> string list \<Rightarrow> string list \<Rightarrow> py_error + loaded" where
  "preprocess_training_data L w image_path label_path =
     bind_result
       (append_loop (\<lambda>img. bind_result (preprocess_image w img) (training_vector L)) [] image_path)
       (\<lambda>images.
     bind_result (append_loop (extract_classification w) [] label_path) (\<lambda>labels.
     Inr (images, labels)))"

definition augment_flip ::
  "'m libs \<Rightarrow> world \<Rightarrow> string list \<Rightarrow> string list \<Rightarrow> py_error + loaded" where
  "augment_flip L w image_path label_path =
     bind_result
       (append_loop (\<lambda>img. bind_result (preprocess_image w img) (flip_vector L)) [] image_path)
       (\<lambda>images.
     bind_result (append_loop (extract_classification w) [] label_path) (\<lambda>labels.
     Inr (images, labels)))"

definition augment_flip_rotate_90 ::
  "'m libs \<Rightarrow> world \<Rightarrow> string list \<Rightarrow> string list \<Rightarrow> py_error + loaded" where
  "augment_flip_rotate_90 L w image_path label_path =
     bind_result
       (append_loop (\<lambda>img. bind_result (preprocess_image w img) (rotate_vector L)) [] image_path)
       (\<lambda>images.
     bind_result (append_loop (extract_classification w) [] label_path) (\<lambda>labels.
     Inr (images, labels)))"

text \<open>
  The top level of \<^verbatim>\<open>3_randomforest.py\<close> up to \<^verbatim>\<open>combined_images\<close> and
  \<^verbatim>\<open>combined_labels\<close>.
\<close>

definition combined_data :: "'m libs \<Rightarrow> world \<Rightarrow> py_error + loaded" where
  "combined_data L w =
     bind_result (get_training_data w ''Inputs/training_data_attempt_1'') (\<lambda>(image_path, label_path).
     bind_result (preprocess_training_data L w image_path label_path) (\<lambda>(images, labels).
     bind_result (augment_flip L w image_path label_path) (\<lambda>(augmented_images, augmented_labels).
     bind_result (augment_flip_rotate_90 L w image_path label_path) (\<lambda>(augmented_images2, augmented_labels2).
     Inr (images @ augmented_images @ augmented_images2,
          labels @ augmented_labels @ augmented_labels2)))))"

text \<open>The loop body of the image loop of \<^verbatim>\<open>randomforest.py\<close>.\<close>

definition rf_vector :: "world \<Rightarrow> string \<Rightarrow> py_error + real list" where
  "rf_vector w img =
     (case gdal_Open w img of
        None \<Rightarrow> Inl AttributeError
      | Some i \<Rightarrow>
          bind_result (ReadAsArray (GetRasterBand i 4)) (\<lambda>nir.
          bind_result (ReadAsArray (GetRasterBand i 3)) (\<lambda>blue.
          bind_result (ReadAsArray (GetRasterBand i 2)) (\<lambda>green.
          bind_result (ReadAsArray (GetRasterBand i 1)) (\<lambda>red.
          bind_result (set_channel (zeros 50 50 4) 0 (astype_float red)) (\<lambda>datas.
          bind_result (set_channel datas 1 (astype_float green)) (\<lambda>datas.
          bind_result (set_channel datas 2 (astype_float blue)) (\<lambda>datas.
          bind_result (set_channel datas 3 (astype_float nir)) (\<lambda>datas.
          Inr (flatten datas))))))))))"

text \<open>The two loops of \<^verbatim>\<open>randomforest.py\<close> that fill \<^verbatim>\<open>images\<close> and \<^verbatim>\<open>labels\<close>.\<close>

definition rf_load :: "world \<Rightarrow> string list \<Rightarrow> string list \<Rightarrow> py_error + loaded" where
  "rf_load w image_path labels_path =
     bind_result (append_loop (rf_vector w) [] image_path) (\<lambda>images.
     bind_result (rf_labels_loop w [] labels_path) (\<lambda>labels.
     Inr (images, labels)))"

section \<open>Sample inputs\<close>

text \<open>
  Concrete rasters, annotations and files on which the definitions above are evaluated.
\<close>

definition tile_2x2 :: dataset where
  "tile_2x2 = \<lparr>width = 2, height = 2,
               bands = [[10, 20, 30, 40], [11, 21, 31, 41], [12, 22, 32, 42], [0, 255, 255, 0]]\<rparr>"

definition tile_rgb :: dataset where
  "tile_rgb = \<lparr>width = 2, height = 2,
               bands = [[10, 20, 30, 40], [11, 21, 31, 41], [12, 22, 32, 42]]\<rparr>"

definition tile_3x2 :: dataset where
  "tile_3x2 = \<lparr>width = 3, height = 2,
               bands = [[1, 2, 3, 4, 5, 6], [1, 2, 3, 4, 5, 6], [1, 2, 3, 4, 5, 6],
                        [255, 255, 255, 255, 255, 255]]\<rparr>"

definition tile_1x1 :: dataset where
  "tile_1x1 = \<lparr>width = 1, height = 1, bands = [[7], [8], [9], [255]]\<rparr>"

definition tile_50x1 :: dataset where
  "tile_50x1 = \<lparr>width = 50, height = 1, bands = replicate 4 (replicate 50 1)\<rparr>"

definition tile_50x50 :: dataset where
  "tile_50x50 = \<lparr>width = 50, height = 50, bands = replicate 4 (replicate 2500 1)\<rparr>"

text \<open>A band of \<open>tile_50x50\<close> as an array.\<close>

definition ones_50x50 :: "int array2" where
  "ones_50x50 = \<lparr>nrows = 50, ncols = 50, data2 = replicate 2500 1\<rparr>"

definition building_xml :: element where
  "building_xml =
     Element ''annotation'' None
       [Element ''filename'' (Some ''a.tif'') [],
        Element ''object'' None
          [Element ''name'' (Some ''building'') [], Element ''difficult'' (Some ''0'') []]]"

definition two_objects_xml :: element where
  "two_objects_xml =
     Element ''annotation'' None
       [Element ''filename'' (Some ''b.tif'') [],
        Element ''object'' None [Element ''name'' (Some ''building'') []],
        Element ''object'' None [Element ''name'' (Some ''road'') []]]"

definition no_object_xml :: element where
  "no_object_xml = Element ''annotation'' None [Element ''filename'' (Some ''c.tif'') []]"

definition sample_line_a :: string where
  "sample_line_a = ''images'' @ [backslash] @ ''a.tif labels'' @ [backslash] @ ''a.xml'' @ [newline]"

definition sample_line_b :: string where
  "sample_line_b = ''images/b.tif   labels/b.xml'' @ [newline]"

definition sample_map :: string where
  "sample_map = sample_line_a @ sample_line_b"

definition sample_world :: world where
  "sample_world =
     \<lparr>open_text = (\<lambda>p.
        if p = ''Inputs/training_data_attempt_1/map.txt'' then Inr sample_map
        else Inl FileNotFoundError),
      rasterio_open = (\<lambda>p.
        if p = ''Inputs/training_data_attempt_1/images/a.tif'' then Inr tile_2x2
        else if p = ''Inputs/training_data_attempt_1/images/b.tif'' then Inr tile_2x2
        else if p = ''rgb.tif'' then Inr tile_rgb
        else if p = ''wide.tif'' then Inr tile_3x2
        else if p = ''tile.tif'' then Inr tile_50x50
        else Inl RasterioIOError),
      ET_parse = (\<lambda>p.
        if p = ''Inputs/training_data_attempt_1/labels/a.xml'' then Inr building_xml
        else if p = ''Inputs/training_data_attempt_1/labels/b.xml'' then Inr two_objects_xml
        else if p = ''empty.xml'' then Inr no_object_xml
        else if p = ''broken.xml'' then Inl ParseError
        else Inl FileNotFoundError),
      gdal_Open = (\<lambda>p.
        if p = ''tile.tif'' then Some tile_50x50
        else if p = ''pixel.tif'' then Some tile_1x1
        else if p = ''strip.tif'' then Some tile_50x1
        else if p = ''rgb.tif'' then Some tile_rgb
        else if p = ''wide.tif'' then Some tile_3x2
        else None)\<rparr>"

text \<open>
  A sample instance of the library routines: a nearest-neighbour resize of the column
  of selected samples, and a warp that returns a blank image of the requested size.
\<close>

definition sample_resize :: "int list \<Rightarrow> nat \<times> nat \<Rightarrow> py_error + real array2" where
  "sample_resize xs shape =
     (case shape of (r, c) \<Rightarrow>
        if xs = [] then Inl ValueError
        else Inr \<lparr>nrows = r, ncols = c,
                  data2 = map (\<lambda>k. real_of_int (xs ! ((k div c) * length xs div r))) [0 ..< r * c]\<rparr>)"

definition sample_libs :: "unit libs" where
  "sample_libs =
     \<lparr>resize = sample_resize,
      getRotationMatrix2D = (\<lambda>center angle scale. ()),
      warpAffine = (\<lambda>src M dsize. case dsize of (w, h) \<Rightarrow>
        Inr \<lparr>dim0 = h, dim1 = w, dim2 = dim2 src, data3 = replicate (h * w * dim2 src) 0\<rparr>)\<rparr>"

text \<open>
  Variants of the sample files and libraries in which one step fails: the second image
  of the map file is missing or has three bands, the second annotation is malformed,
  \<^verbatim>\<open>resize\<close> fails on the samples of the flipped first image, \<^verbatim>\<open>warpAffine\<close> fails.
\<close>

definition world_missing_image :: world where
  "world_missing_image =
     sample_world\<lparr>rasterio_open := (\<lambda>p.
        if p = ''Inputs/training_data_attempt_1/images/a.tif'' then Inr tile_2x2
        else Inl RasterioIOError)\<rparr>"

definition world_three_band_image :: world where
  "world_three_band_image =
     sample_world\<lparr>rasterio_open := (\<lambda>p.
        if p = ''Inputs/training_data_attempt_1/images/a.tif'' then Inr tile_2x2
        else Inr tile_rgb)\<rparr>"

definition world_broken_xml :: world where
  "world_broken_xml =
     sample_world\<lparr>ET_parse := (\<lambda>p.
        if p = ''Inputs/training_data_attempt_1/labels/a.xml'' then Inr building_xml
        else Inl ParseError)\<rparr>"

definition world_no_map :: world where
  "world_no_map = sample_world\<lparr>open_text := (\<lambda>p. Inl FileNotFoundError)\<rparr>"

definition libs_flip_fails :: "unit libs" where
  "libs_flip_fails =
     sample_libs\<lparr>resize := (\<lambda>xs shape.
        if xs = [30, 20] then Inl (LibraryError ''resize'') else sample_resize xs shape)\<rparr>"

definition libs_warp_fails :: "unit libs" where
  "libs_warp_fails =
     sample_libs\<lparr>warpAffine := (\<lambda>src M dsize. Inl (LibraryError ''warpAffine''))\<rparr>"

section \<open>Properties of the loops and of the array operations\<close>

subsection \<open>Facts about the traversal\<close>

lemma iter_filter_elements:
  "t \<noteq> ''*'' \<Longrightarrow> iter t e = filter (\<lambda>x. tag x = t) (elements e)"
proof (induction e)
  case (Element tg tx cs)
  have "concat (map (iter t) cs) = concat (map (\<lambda>c. filter (\<lambda>x. tag x = t) (elements c)) cs)"
    using Element by (intro arg_cong[where f = concat] map_cong) auto
  then show ?case
    using Element.prems by (auto simp: filter_concat comp_def)
qed

lemma classification_loop_last:
  "classification_loop c es = (if es = [] then c else Some (elem_text (last es)))"
  by (induction es arbitrary: c) auto

subsection \<open>Exceptions, loops and the map file\<close>


lemma bind_result_Inl [simp]: "bind_result (Inl e) f = Inl e"
  by (simp add: bind_result_def)

lemma bind_result_Inr [simp]: "bind_result (Inr x) f = f x"
  by (simp add: bind_result_def)

lemma bind_result_eq_Inr: "bind_result r f = Inr y \<longleftrightarrow> (\<exists>x. r = Inr x \<and> f x = Inr y)"
  by (cases r) auto

lemma bind_result_eq_Inl: "bind_result r f = Inl e \<longleftrightarrow> r = Inl e \<or> (\<exists>x. r = Inr x \<and> f x = Inl e)"
  by (cases r) auto

lemma append_loop_Inr:
  "append_loop body acc xs = Inr ys \<longleftrightarrow> (\<exists>zs. ys = acc @ zs \<and> list_all2 (\<lambda>x z. body x = Inr z) xs zs)"
proof (induction xs arbitrary: acc)
  case Nil
  then show ?case by auto
next
  case (Cons x xs)
  show ?case
  proof (cases "body x")
    case (Inl e)
    then show ?thesis by (auto simp: list_all2_Cons1)
  next
    case (Inr y)
    then show ?thesis by (auto simp: Cons.IH list_all2_Cons1)
  qed
qed

lemma append_loop_fails:
  "x \<in> set xs \<Longrightarrow> body x = Inl e \<Longrightarrow> \<exists>e'. append_loop body acc xs = Inl e'"
proof (induction xs arbitrary: acc)
  case Nil
  then show ?case by simp
next
  case (Cons a xs)
  then show ?case by (cases "body a") auto
qed

lemma append_loop_all_ok:
  "\<forall>x \<in> set xs. \<exists>y. body x = Inr y \<Longrightarrow> \<exists>ys. append_loop body acc xs = Inr ys"
proof (induction xs arbitrary: acc)
  case Nil
  then show ?case by simp
next
  case (Cons a xs)
  then show ?case by (cases "body a") auto
qed

lemma map_file_loop_ok:
  "\<forall>line \<in> set lines. 2 \<le> length (line_tokens line) \<Longrightarrow>
   map_file_loop prefix (ip, lp) lines =
     Inr (ip @ map (\<lambda>line. prefix @ line_tokens line ! 0) lines,
          lp @ map (\<lambda>line. prefix @ line_tokens line ! 1) lines)"
proof (induction lines arbitrary: ip lp)
  case Nil
  then show ?case by simp
next
  case (Cons line rest)
  then have "2 \<le> length (line_tokens line)" by simp
  then have "py_index (line_tokens line) 0 = Inr (line_tokens line ! 0)"
    and "py_index (line_tokens line) 1 = Inr (line_tokens line ! 1)"
    by (auto simp: py_index_def)
  with Cons show ?case by simp
qed

lemma map_file_loop_short:
  "line \<in> set lines \<Longrightarrow> length (line_tokens line) < 2 \<Longrightarrow>
   map_file_loop prefix (ip, lp) lines = Inl IndexError"
proof (induction lines arbitrary: ip lp)
  case Nil
  then show ?case by simp
next
  case (Cons a rest)
  then show ?case
    by (auto simp: py_index_def split: sum.splits)
qed

lemma split_acc_tokens:
  "\<forall>c \<in> set cur. \<not> is_space c \<Longrightarrow> t \<in> set (split_acc cur s) \<Longrightarrow>
   t \<noteq> [] \<and> (\<forall>c \<in> set t. \<not> is_space c \<and> c \<in> set cur \<union> set s)"
proof (induction s arbitrary: cur)
  case Nil
  then show ?case by (auto split: if_splits)
next
  case (Cons c cs)
  show ?case
  proof (cases "is_space c")
    case True
    with Cons.prems Cons.IH[of "[]"] show ?thesis
      by (auto split: if_splits)
  next
    case False
    with Cons.prems Cons.IH[of "cur @ [c]"] show ?thesis
      by auto
  qed
qed

lemma line_tokens_clean:
  assumes "t \<in> set (line_tokens line)"
  shows "t \<noteq> [] \<and> (\<forall>c \<in> set t. \<not> is_space c \<and> c \<noteq> backslash \<and> c \<noteq> newline)"
proof -
  from assms have t: "t \<noteq> []" "\<forall>c \<in> set t. \<not> is_space c \<and> c \<in> set (replace_backslash (strip_newline line))"
    using split_acc_tokens[of "[]" t "replace_backslash (strip_newline line)"]
    by (auto simp: line_tokens_def py_split_def)
  have "backslash \<notin> set (replace_backslash s)" for s
    by (auto simp: replace_backslash_def backslash_def)
  moreover have "is_space newline"
    by (simp add: is_space_def newline_def)
  ultimately show ?thesis using t by metis
qed

lemma readlines_acc_concat: "concat (readlines_acc cur s) = cur @ s"
  by (induction s arbitrary: cur) auto

lemma readlines_concat: "concat (readlines content) = content"
  by (simp add: readlines_def readlines_acc_concat)

lemma set_channel_shape:
  "set_channel rgb ch v = Inr r \<Longrightarrow>
   dim0 r = dim0 rgb \<and> dim1 r = dim1 rgb \<and> dim2 r = dim2 rgb \<and>
   length (data3 r) = dim0 rgb * dim1 rgb * dim2 rgb \<and> broadcasts_to v (dim0 rgb) (dim1 rgb)"
  by (auto simp: set_channel_def split: if_splits)

lemma set_channel_ok:
  "broadcasts_to v (dim0 rgb) (dim1 rgb) \<Longrightarrow> \<exists>r. set_channel rgb ch v = Inr r"
  by (simp add: set_channel_def)

lemma set_channel_fails:
  "\<not> broadcasts_to v (dim0 rgb) (dim1 rgb) \<Longrightarrow> set_channel rgb ch v = Inl ValueError"
  by (simp add: set_channel_def)

lemma zeros_shape [simp]:
  "dim0 (zeros a b c) = a" "dim1 (zeros a b c) = b" "dim2 (zeros a b c) = c"
  "length (data3 (zeros a b c)) = a * b * c"
  by (simp_all add: zeros_def)

lemma astype_float_shape [simp]:
  "nrows (astype_float a) = nrows a" "ncols (astype_float a) = ncols a"
  by (simp_all add: astype_float_def)

lemma broadcasts_to_astype [simp]:
  "broadcasts_to (astype_float a) r c = broadcasts_to a r c"
  by (simp add: broadcasts_to_def)

lemma resized_rgb_shape:
  assumes "resized_rgb L nX nY masked = Inr rgb"
  shows "dim0 rgb = nX \<and> dim1 rgb = nY \<and> dim2 rgb = 3 \<and> length (data3 rgb) = nX * nY * 3"
proof -
  obtain mr mg mb where m: "masked = (mr, mg, mb)" by (cases masked) auto
  from assms obtain a b c x y where
    x: "set_channel (zeros nX nY 3) 0 a = Inr x" and
    y: "set_channel x 1 b = Inr y" and
    z: "set_channel y 2 c = Inr rgb"
    unfolding resized_rgb_def m by (auto simp: bind_result_eq_Inr)
  from set_channel_shape[OF x] set_channel_shape[OF y] set_channel_shape[OF z]
  show ?thesis by simp
qed

lemma training_vector_length:
  "training_vector L (nX, nY, red, green, blue, alpha) = Inr v \<Longrightarrow> length v = nX * nY * 3"
  by (auto simp: training_vector_def bind_result_eq_Inr flatten_def dest: resized_rgb_shape)

lemma flip_vector_length:
  "flip_vector L (nX, nY, red, green, blue, alpha) = Inr v \<Longrightarrow> length v = nX * nY * 3"
  by (auto simp: flip_vector_def bind_result_eq_Inr flatten_def dest: resized_rgb_shape)

lemma rotate_vector_length:
  assumes "warp_shape_ok L" "rotate_vector L (nX, nY, red, green, blue, alpha) = Inr v"
  shows "length v = nX * nY * 3"
proof -
  from assms(2) obtain masked rgb_flip rotated where
    r: "resized_rgb L nX nY masked = Inr rgb_flip" and
    w: "warpAffine L rgb_flip (getRotationMatrix2D L (real nX / 2, real nY / 2) 90 1) (nY, nX) = Inr rotated" and
    v: "v = flatten rotated"
    by (auto simp: rotate_vector_def bind_result_eq_Inr)
  from assms(1) w have "length (data3 rotated) = nX * nY * dim2 rgb_flip"
    unfolding warp_shape_ok_def by blast
  with resized_rgb_shape[OF r] v show ?thesis by (simp add: flatten_def)
qed

lemma preprocess_image_Inr:
  "preprocess_image w img = Inr vals \<longleftrightarrow>
     (\<exists>ds. rasterio_open w img = Inr ds \<and> 4 \<le> length (bands ds) \<and>
        vals = (width ds, height ds,
                \<lparr>nrows = height ds, ncols = width ds, data2 = bands ds ! 0\<rparr>,
                \<lparr>nrows = height ds, ncols = width ds, data2 = bands ds ! 1\<rparr>,
                \<lparr>nrows = height ds, ncols = width ds, data2 = bands ds ! 2\<rparr>,
                \<lparr>nrows = height ds, ncols = width ds, data2 = bands ds ! 3\<rparr>))"
  by (cases "rasterio_open w img")
     (auto simp: preprocess_image_def dataset_read_def bind_result_eq_Inr split: if_splits)

lemma preprocess_image_few_bands:
  "rasterio_open w img = Inr ds \<Longrightarrow> length (bands ds) < 4 \<Longrightarrow> preprocess_image w img = Inl IndexError"
  by (auto simp: preprocess_image_def dataset_read_def)

lemma preprocess_image_open_fails:
  "rasterio_open w img = Inl e \<Longrightarrow> preprocess_image w img = Inl e"
  by (simp add: preprocess_image_def)

subsection \<open>Boolean indexing and flipping\<close>


lemma zip_as_map_upt:
  "length xs = n \<Longrightarrow> length ys = n \<Longrightarrow> zip xs ys = map (\<lambda>k. (xs ! k, ys ! k)) [0 ..< n]"
  by (auto intro!: nth_equalityI)

lemma filter_zip_by_index:
  assumes "length xs = n" "length ms = n"
  shows "map fst (filter snd (zip xs (map P ms))) = map (\<lambda>k. xs ! k) (filter (\<lambda>k. P (ms ! k)) [0 ..< n])"
proof -
  have "zip xs (map P ms) = map (\<lambda>k. (xs ! k, map P ms ! k)) [0 ..< n]"
    using assms by (intro zip_as_map_upt) simp_all
  moreover have "filter (\<lambda>k. map P ms ! k) [0 ..< n] = filter (\<lambda>k. P (ms ! k)) [0 ..< n]"
    using assms by (intro filter_cong) auto
  ultimately show ?thesis
    by (simp add: filter_map comp_def)
qed

lemma upt_rows:
  "[0 ..< h * w] = concat (map (\<lambda>i. map (\<lambda>j. i * w + j) [0 ..< w]) [0 ..< h])"
proof (induction h)
  case 0
  then show ?case by simp
next
  case (Suc h)
  have a: "[0 ..< h * w + w] = [0 ..< h * w] @ [h * w ..< h * w + w]"
    by (rule upt_add_eq_append) simp
  have b: "[h * w ..< h * w + w] = map (\<lambda>j. h * w + j) [0 ..< w]"
    using map_add_upt[of "h * w" w] by (simp only: add.commute)
  have c: "concat (map (\<lambda>i. map (\<lambda>j. i * w + j) [0 ..< w]) [0 ..< Suc h]) =
        concat (map (\<lambda>i. map (\<lambda>j. i * w + j) [0 ..< w]) [0 ..< h]) @ map (\<lambda>j. h * w + j) [0 ..< w]"
    by simp
  have "Suc h * w = h * w + w" by simp
  then have "[0 ..< Suc h * w] = [0 ..< h * w] @ map (\<lambda>j. h * w + j) [0 ..< w]"
    using a b by (simp only:)
  then show ?case
    unfolding c Suc.IH[symmetric] .
qed

lemma boolean_index_row_major:
  assumes "nrows alpha = nrows a" "ncols alpha = ncols a"
    and "length (data2 a) = nrows a * ncols a" "length (data2 alpha) = nrows a * ncols a"
  shows "boolean_index a (not_zero alpha) =
           Inr (concat (map (\<lambda>i. map (\<lambda>j. at2 a i j) (filter (\<lambda>j. at2 alpha i j \<noteq> 0) [0 ..< ncols a]))
                          [0 ..< nrows a]))"
proof -
  have "boolean_index a (not_zero alpha) =
          Inr (map (\<lambda>k. data2 a ! k) (filter (\<lambda>k. data2 alpha ! k \<noteq> 0) [0 ..< nrows a * ncols a]))"
    using assms filter_zip_by_index[of "data2 a" "nrows a * ncols a" "data2 alpha" "\<lambda>x. x \<noteq> 0"]
    by (simp add: boolean_index_def not_zero_def)
  also have "map (\<lambda>k. data2 a ! k) (filter (\<lambda>k. data2 alpha ! k \<noteq> 0) [0 ..< nrows a * ncols a]) =
      concat (map (\<lambda>i. map (\<lambda>j. at2 a i j) (filter (\<lambda>j. at2 alpha i j \<noteq> 0) [0 ..< ncols a]))
                          [0 ..< nrows a])"
    unfolding upt_rows[of "nrows a" "ncols a"]
    by (simp add: filter_concat map_concat filter_map comp_def at2_def assms)
  finally show ?thesis .
qed

lemma flipud_shape [simp]:
  "nrows (flipud a) = nrows a" "ncols (flipud a) = ncols a"
  "length (data2 (flipud a)) = nrows a * ncols a"
  by (simp_all add: flipud_def)

lemma at2_flipud:
  assumes "i < nrows a" "j < ncols a"
  shows "at2 (flipud a) i j = at2 a (nrows a - 1 - i) j"
proof -
  have "i * ncols a + j < nrows a * ncols a"
  proof -
    have "i * ncols a + j < Suc i * ncols a" using assms by simp
    also have "\<dots> \<le> nrows a * ncols a" using assms by (intro mult_le_mono1) simp
    finally show ?thesis .
  qed
  moreover have "(i * ncols a + j) div ncols a = i" "(i * ncols a + j) mod ncols a = j"
    using assms by simp_all
  ultimately show ?thesis
    by (simp add: at2_def flipud_def)
qed

lemma boolean_index_flipud:
  assumes "nrows alpha = nrows a" "ncols alpha = ncols a"
  shows "boolean_index (flipud a) (not_zero (flipud alpha)) =
           Inr (concat (map (\<lambda>i. map (\<lambda>j. at2 a (nrows a - 1 - i) j)
                                   (filter (\<lambda>j. at2 alpha (nrows a - 1 - i) j \<noteq> 0) [0 ..< ncols a]))
                          [0 ..< nrows a]))"
proof -
  have "boolean_index (flipud a) (not_zero (flipud alpha)) =
          Inr (concat (map (\<lambda>i. map (\<lambda>j. at2 (flipud a) i j)
                                  (filter (\<lambda>j. at2 (flipud alpha) i j \<noteq> 0) [0 ..< ncols a]))
                         [0 ..< nrows a]))"
    using boolean_index_row_major[of "flipud alpha" "flipud a"] assms by simp
  also have "map (\<lambda>i. map (\<lambda>j. at2 (flipud a) i j)
                         (filter (\<lambda>j. at2 (flipud alpha) i j \<noteq> 0) [0 ..< ncols a]))
                [0 ..< nrows a] =
             map (\<lambda>i. map (\<lambda>j. at2 a (nrows a - 1 - i) j)
                         (filter (\<lambda>j. at2 alpha (nrows a - 1 - i) j \<noteq> 0) [0 ..< ncols a]))
                [0 ..< nrows a]"
  proof (rule map_cong[OF refl])
    fix i assume "i \<in> set [0 ..< nrows a]"
    then have i: "i < nrows a" by simp
    have f: "filter (\<lambda>j. at2 (flipud alpha) i j \<noteq> 0) [0 ..< ncols a] =
          filter (\<lambda>j. at2 alpha (nrows a - 1 - i) j \<noteq> 0) [0 ..< ncols a]"
      using i assms at2_flipud[of i alpha] by (intro filter_cong) auto
    have m: "map (\<lambda>j. at2 (flipud a) i j) js = map (\<lambda>j. at2 a (nrows a - 1 - i) j) js"
      if "\<forall>j \<in> set js. j < ncols a" for js
      using that i at2_flipud[of i a] by (intro map_cong) auto
    show "map (\<lambda>j. at2 (flipud a) i j) (filter (\<lambda>j. at2 (flipud alpha) i j \<noteq> 0) [0 ..< ncols a]) =
       map (\<lambda>j. at2 a (nrows a - 1 - i) j) (filter (\<lambda>j. at2 alpha (nrows a - 1 - i) j \<noteq> 0) [0 ..< ncols a])"
      unfolding f by (rule m) simp
  qed
  finally show ?thesis .
qed

section \<open>Annotations and the map file\<close>


lemma append_loop_first_failure:
  "\<forall>x \<in> set pre. \<exists>y. body x = Inr y \<Longrightarrow> body bad = Inl e \<Longrightarrow>
   append_loop body acc (pre @ bad # post) = Inl e"
proof (induction pre arbitrary: acc)
  case Nil
  then show ?case by simp
next
  case (Cons a pre)
  then obtain y where "body a = Inr y" by auto
  with Cons show ?case by simp
qed

lemma extract_classification_last:
  assumes "ET_parse w label = Inr rt"
  shows "extract_classification w label =
           (if filter (\<lambda>e. tag e = ''name'') (elements rt) = [] then Inl UnboundLocalError
            else Inr (elem_text (last (filter (\<lambda>e. tag e = ''name'') (elements rt)))))"
proof -
  have "iter ''name'' rt = filter (\<lambda>e. tag e = ''name'') (elements rt)"
    by (rule iter_filter_elements) simp
  then show ?thesis
    using assms by (simp add: extract_classification_def classification_loop_last)
qed

text \<open>
  Claim C8. For an annotation that parses and contains a \<^verbatim>\<open>name\<close> element,
  \<^verbatim>\<open>extract_classification\<close> returns the text of a \<^verbatim>\<open>name\<close> element of the
  document (the root or one of its descendants).
\<close>

theorem extract_classification_name:
  assumes "ET_parse w label = Inr rt"
    and "\<exists>e \<in> set (elements rt). tag e = ''name''"
  shows "\<exists>e \<in> set (elements rt). tag e = ''name'' \<and> extract_classification w label = Inr (elem_text e)"
proof -
  let ?names = "filter (\<lambda>e. tag e = ''name'') (elements rt)"
  from assms(2) have ne: "?names \<noteq> []"
    by (auto simp: filter_empty_conv)
  then have "last ?names \<in> set ?names" by (rule last_in_set)
  then have "last ?names \<in> set (elements rt)" "tag (last ?names) = ''name''" by auto
  moreover have "extract_classification w label = Inr (elem_text (last ?names))"
    using extract_classification_last[OF assms(1)] ne by simp
  ultimately show ?thesis by blast
qed

theorem extract_classification_name_witness:
  "ET_parse sample_world ''Inputs/training_data_attempt_1/labels/a.xml'' = Inr building_xml \<and>
   (\<exists>e \<in> set (elements building_xml). tag e = ''name'') \<and>
   (\<exists>e \<in> set (elements building_xml). tag e = ''name'' \<and>
      extract_classification sample_world ''Inputs/training_data_attempt_1/labels/a.xml'' = Inr (elem_text e))"
proof -
  have h1: "ET_parse sample_world ''Inputs/training_data_attempt_1/labels/a.xml'' = Inr building_xml"
    by (simp add: sample_world_def)
  have h2: "\<exists>e \<in> set (elements building_xml). tag e = ''name''"
    by (simp add: building_xml_def)
  from extract_classification_name[OF h1 h2] h1 h2 show ?thesis by blast
qed

text \<open>
  Claim C10. On a document with no \<^verbatim>\<open>name\<close> element the variable
  \<^verbatim>\<open>classification\<close> is never bound and the \<^verbatim>\<open>return\<close> raises
  \<^verbatim>\<open>UnboundLocalError\<close>; on a document with two or more \<^verbatim>\<open>name\<close> elements the
  result is the text of the last one in document order.
\<close>

theorem extract_classification_edges:
  assumes "ET_parse w label = Inr rt"
  shows "(filter (\<lambda>e. tag e = ''name'') (elements rt) = [] \<longrightarrow>
            extract_classification w label = Inl UnboundLocalError) \<and>
         (2 \<le> length (filter (\<lambda>e. tag e = ''name'') (elements rt)) \<longrightarrow>
            extract_classification w label =
              Inr (elem_text (last (filter (\<lambda>e. tag e = ''name'') (elements rt)))))"
  using extract_classification_last[OF assms] by auto

theorem extract_classification_edges_witness:
  "ET_parse sample_world ''empty.xml'' = Inr no_object_xml \<and>
   filter (\<lambda>e. tag e = ''name'') (elements no_object_xml) = [] \<and>
   extract_classification sample_world ''empty.xml'' = Inl UnboundLocalError \<and>
   ET_parse sample_world ''Inputs/training_data_attempt_1/labels/b.xml'' = Inr two_objects_xml \<and>
   2 \<le> length (filter (\<lambda>e. tag e = ''name'') (elements two_objects_xml)) \<and>
   extract_classification sample_world ''Inputs/training_data_attempt_1/labels/b.xml'' = Inr (Some ''road'')"
proof -
  have h1: "ET_parse sample_world ''empty.xml'' = Inr no_object_xml"
    by (simp add: sample_world_def)
  have h2: "ET_parse sample_world ''Inputs/training_data_attempt_1/labels/b.xml'' = Inr two_objects_xml"
    by (simp add: sample_world_def)
  have e1: "filter (\<lambda>e. tag e = ''name'') (elements no_object_xml) = []"
    by (simp add: no_object_xml_def)
  have e2: "filter (\<lambda>e. tag e = ''name'') (elements two_objects_xml) =
              [Element ''name'' (Some ''building'') [], Element ''name'' (Some ''road'') []]"
    by (simp add: two_objects_xml_def)
  from extract_classification_edges[OF h1] extract_classification_edges[OF h2] h1 h2 e1 e2
  show ?thesis by simp
qed

text \<open>
  Claim C4. When every line of the map file has at least two whitespace-separated
  tokens, \<^verbatim>\<open>get_training_data\<close> returns one image path and one label path per
  line: \<^verbatim>\<open>path_to_data + '/'\<close> followed by the first, respectively the second, token
  of the line after the newline has been stripped and every backslash replaced by a
  slash. The lines are the pieces of the file, and a token is non-empty and contains
  no whitespace, backslash or newline.
\<close>

theorem get_training_data_paths:
  assumes "open_text w (path_to_data @ ''/map.txt'') = Inr content"
    and "\<forall>line \<in> set (readlines content). 2 \<le> length (line_tokens line)"
  shows "get_training_data w path_to_data =
           Inr (map (\<lambda>line. path_to_data @ ''/'' @ line_tokens line ! 0) (readlines content),
                map (\<lambda>line. path_to_data @ ''/'' @ line_tokens line ! 1) (readlines content)) \<and>
         concat (readlines content) = content \<and>
         (\<forall>line \<in> set (readlines content). \<forall>t \<in> set (line_tokens line).
            t \<noteq> [] \<and> (\<forall>c \<in> set t. \<not> is_space c \<and> c \<noteq> backslash \<and> c \<noteq> newline))"
  using assms map_file_loop_ok[of "readlines content" "path_to_data @ ''/''" "[]" "[]"]
  by (simp add: get_training_data_def readlines_concat line_tokens_clean)

lemma readlines_sample_map: "readlines sample_map = [sample_line_a, sample_line_b]"
proof -
  have "readlines sample_map = readlines (sample_line_a @ sample_line_b)"
    by (simp add: sample_map_def)
  also have "\<dots> = [''images'' @ [backslash] @ ''a.tif labels'' @ [backslash] @ ''a.xml'' @ [newline],
                    ''images/b.tif   labels/b.xml'' @ [newline]]"
    by (simp add: readlines_def sample_line_a_def sample_line_b_def newline_def backslash_def)
  finally show ?thesis
    by (simp only: sample_line_a_def sample_line_b_def)
qed

lemma line_tokens_sample_map:
  "line_tokens sample_line_a = [''images/a.tif'', ''labels/a.xml'']"
  "line_tokens sample_line_b = [''images/b.tif'', ''labels/b.xml'']"
  by (simp_all add: line_tokens_def py_split_def replace_backslash_def strip_newline_def
        is_space_def newline_def backslash_def sample_line_a_def sample_line_b_def)

theorem get_training_data_paths_witness:
  "open_text sample_world (''Inputs/training_data_attempt_1'' @ ''/map.txt'') = Inr sample_map \<and>
   readlines sample_map = [sample_line_a, sample_line_b] \<and>
   2 \<le> length (line_tokens sample_line_a) \<and> 2 \<le> length (line_tokens sample_line_b) \<and>
   get_training_data sample_world ''Inputs/training_data_attempt_1'' =
     Inr ([''Inputs/training_data_attempt_1/images/a.tif'', ''Inputs/training_data_attempt_1/images/b.tif''],
          [''Inputs/training_data_attempt_1/labels/a.xml'', ''Inputs/training_data_attempt_1/labels/b.xml''])"
proof -
  have h1: "open_text sample_world (''Inputs/training_data_attempt_1'' @ ''/map.txt'') = Inr sample_map"
    by (simp add: sample_world_def)
  have h2: "\<forall>line \<in> set (readlines sample_map). 2 \<le> length (line_tokens line)"
    by (simp add: readlines_sample_map line_tokens_sample_map)
  from get_training_data_paths[OF h1 h2] h1 h2 show ?thesis
    by (simp add: readlines_sample_map line_tokens_sample_map)
qed

section \<open>Failures and band counts\<close>


lemma get_training_data_open_fails:
  "open_text w (p @ ''/map.txt'') = Inl e \<Longrightarrow> get_training_data w p = Inl e"
  by (simp add: get_training_data_def)

lemma extract_classification_parse_fails:
  "ET_parse w label = Inl e \<Longrightarrow> extract_classification w label = Inl e"
  by (simp add: extract_classification_def)

lemma rf_vector_few_bands:
  "gdal_Open w img = Some i \<Longrightarrow> length (bands i) < 4 \<Longrightarrow> rf_vector w img = Inl AttributeError"
  by (simp add: rf_vector_def GetRasterBand_def ReadAsArray_def)

lemma ReadAsArray_band:
  "1 \<le> k \<Longrightarrow> k \<le> length (bands i) \<Longrightarrow>
   ReadAsArray (GetRasterBand i k) = Inr \<lparr>nrows = height i, ncols = width i, data2 = bands i ! (k - 1)\<rparr>"
  by (simp add: GetRasterBand_def ReadAsArray_def)

text \<open>
  Claim C2, as stated, fails on a three-band raster: both scripts read band 4.
  \<^verbatim>\<open>preprocess_image\<close> raises \<^verbatim>\<open>IndexError\<close> and the loop body of
  \<^verbatim>\<open>randomforest.py\<close> raises \<^verbatim>\<open>AttributeError\<close>.
\<close>

theorem three_band_raster_rejected:
  "rasterio_open sample_world ''rgb.tif'' = Inr tile_rgb \<and>
   gdal_Open sample_world ''rgb.tif'' = Some tile_rgb \<and>
   length (bands tile_rgb) = 3 \<and>
   preprocess_image sample_world ''rgb.tif'' = Inl IndexError \<and>
   rf_vector sample_world ''rgb.tif'' = Inl AttributeError"
  by (simp add: sample_world_def tile_rgb_def preprocess_image_def dataset_read_def
      rf_vector_def GetRasterBand_def ReadAsArray_def)

text \<open>
  Claim C2, amended. On a raster with at least four bands \<^verbatim>\<open>preprocess_image\<close>
  succeeds and returns the width, the height and bands 1 to 4, and the four GDAL band
  reads of \<^verbatim>\<open>randomforest.py\<close> succeed; on a raster with exactly three bands
  \<^verbatim>\<open>preprocess_image\<close> raises \<^verbatim>\<open>IndexError\<close> and the loop body of
  \<^verbatim>\<open>randomforest.py\<close> raises \<^verbatim>\<open>AttributeError\<close>.
\<close>

theorem band_reads_need_four_bands:
  "(rasterio_open w img = Inr ds \<and> 4 \<le> length (bands ds) \<longrightarrow>
      preprocess_image w img =
        Inr (width ds, height ds,
             \<lparr>nrows = height ds, ncols = width ds, data2 = bands ds ! 0\<rparr>,
             \<lparr>nrows = height ds, ncols = width ds, data2 = bands ds ! 1\<rparr>,
             \<lparr>nrows = height ds, ncols = width ds, data2 = bands ds ! 2\<rparr>,
             \<lparr>nrows = height ds, ncols = width ds, data2 = bands ds ! 3\<rparr>)) \<and>
   (rasterio_open w img = Inr ds \<and> length (bands ds) = 3 \<longrightarrow>
      preprocess_image w img = Inl IndexError) \<and>
   (4 \<le> length (bands i) \<longrightarrow>
      ReadAsArray (GetRasterBand i 4) = Inr \<lparr>nrows = height i, ncols = width i, data2 = bands i ! 3\<rparr> \<and>
      ReadAsArray (GetRasterBand i 3) = Inr \<lparr>nrows = height i, ncols = width i, data2 = bands i ! 2\<rparr> \<and>
      ReadAsArray (GetRasterBand i 2) = Inr \<lparr>nrows = height i, ncols = width i, data2 = bands i ! 1\<rparr> \<and>
      ReadAsArray (GetRasterBand i 1) = Inr \<lparr>nrows = height i, ncols = width i, data2 = bands i ! 0\<rparr>) \<and>
   (gdal_Open w img = Some i \<and> length (bands i) = 3 \<longrightarrow> rf_vector w img = Inl AttributeError)"
proof (intro conjI impI)
  assume "rasterio_open w img = Inr ds \<and> 4 \<le> length (bands ds)"
  then show "preprocess_image w img =
        Inr (width ds, height ds,
             \<lparr>nrows = height ds, ncols = width ds, data2 = bands ds ! 0\<rparr>,
             \<lparr>nrows = height ds, ncols = width ds, data2 = bands ds ! 1\<rparr>,
             \<lparr>nrows = height ds, ncols = width ds, data2 = bands ds ! 2\<rparr>,
             \<lparr>nrows = height ds, ncols = width ds, data2 = bands ds ! 3\<rparr>)"
    by (simp add: preprocess_image_Inr)
next
  assume "rasterio_open w img = Inr ds \<and> length (bands ds) = 3"
  then show "preprocess_image w img = Inl IndexError"
    using preprocess_image_few_bands[of w img ds] by simp
next
  assume a: "4 \<le> length (bands i)"
  show "ReadAsArray (GetRasterBand i 4) = Inr \<lparr>nrows = height i, ncols = width i, data2 = bands i ! 3\<rparr>"
    using a ReadAsArray_band[of 4 i] by simp
  show "ReadAsArray (GetRasterBand i 3) = Inr \<lparr>nrows = height i, ncols = width i, data2 = bands i ! 2\<rparr>"
    using a ReadAsArray_band[of 3 i] by simp
  show "ReadAsArray (GetRasterBand i 2) = Inr \<lparr>nrows = height i, ncols = width i, data2 = bands i ! 1\<rparr>"
    using a ReadAsArray_band[of 2 i] by simp
  show "ReadAsArray (GetRasterBand i 1) = Inr \<lparr>nrows = height i, ncols = width i, data2 = bands i ! 0\<rparr>"
    using a ReadAsArray_band[of 1 i] by simp
next
  assume "gdal_Open w img = Some i \<and> length (bands i) = 3"
  then show "rf_vector w img = Inl AttributeError"
    using rf_vector_few_bands[of w img i] by simp
qed

theorem band_reads_need_four_bands_witness:
  "rasterio_open sample_world ''wide.tif'' = Inr tile_3x2 \<and> 4 \<le> length (bands tile_3x2) \<and>
   preprocess_image sample_world ''wide.tif'' =
     Inr (3, 2,
          \<lparr>nrows = 2, ncols = 3, data2 = [1, 2, 3, 4, 5, 6]\<rparr>,
          \<lparr>nrows = 2, ncols = 3, data2 = [1, 2, 3, 4, 5, 6]\<rparr>,
          \<lparr>nrows = 2, ncols = 3, data2 = [1, 2, 3, 4, 5, 6]\<rparr>,
          \<lparr>nrows = 2, ncols = 3, data2 = [255, 255, 255, 255, 255, 255]\<rparr>) \<and>
   rasterio_open sample_world ''rgb.tif'' = Inr tile_rgb \<and> length (bands tile_rgb) = 3 \<and>
   preprocess_image sample_world ''rgb.tif'' = Inl IndexError \<and>
   ReadAsArray (GetRasterBand tile_1x1 4) = Inr \<lparr>nrows = 1, ncols = 1, data2 = [255]\<rparr> \<and>
   ReadAsArray (GetRasterBand tile_1x1 1) = Inr \<lparr>nrows = 1, ncols = 1, data2 = [7]\<rparr> \<and>
   gdal_Open sample_world ''rgb.tif'' = Some tile_rgb \<and>
   rf_vector sample_world ''rgb.tif'' = Inl AttributeError"
proof -
  have h1: "rasterio_open sample_world ''wide.tif'' = Inr tile_3x2 \<and> 4 \<le> length (bands tile_3x2)"
    by (simp add: sample_world_def tile_3x2_def)
  have h2: "rasterio_open sample_world ''rgb.tif'' = Inr tile_rgb \<and> length (bands tile_rgb) = 3"
    by (simp add: sample_world_def tile_rgb_def)
  have h3: "4 \<le> length (bands tile_1x1)"
    by (simp add: tile_1x1_def)
  have h4: "gdal_Open sample_world ''rgb.tif'' = Some tile_rgb \<and> length (bands tile_rgb) = 3"
    by (simp add: sample_world_def tile_rgb_def)
  from band_reads_need_four_bands[of sample_world "''wide.tif''" tile_3x2 tile_1x1] h1
  have c1: "preprocess_image sample_world ''wide.tif'' =
        Inr (width tile_3x2, height tile_3x2,
             \<lparr>nrows = height tile_3x2, ncols = width tile_3x2, data2 = bands tile_3x2 ! 0\<rparr>,
             \<lparr>nrows = height tile_3x2, ncols = width tile_3x2, data2 = bands tile_3x2 ! 1\<rparr>,
             \<lparr>nrows = height tile_3x2, ncols = width tile_3x2, data2 = bands tile_3x2 ! 2\<rparr>,
             \<lparr>nrows = height tile_3x2, ncols = width tile_3x2, data2 = bands tile_3x2 ! 3\<rparr>)"
    by blast
  from band_reads_need_four_bands[of sample_world "''rgb.tif''" tile_rgb tile_1x1] h2 h3 h4
  have c2: "preprocess_image sample_world ''rgb.tif'' = Inl IndexError"
    and c3: "ReadAsArray (GetRasterBand tile_1x1 4) =
               Inr \<lparr>nrows = height tile_1x1, ncols = width tile_1x1, data2 = bands tile_1x1 ! 3\<rparr>"
    and c4: "ReadAsArray (GetRasterBand tile_1x1 1) =
               Inr \<lparr>nrows = height tile_1x1, ncols = width tile_1x1, data2 = bands tile_1x1 ! 0\<rparr>"
    by blast+
  from band_reads_need_four_bands[of sample_world "''rgb.tif''" tile_rgb tile_rgb] h4
  have c5: "rf_vector sample_world ''rgb.tif'' = Inl AttributeError"
    by blast
  from h1 h2 h4 c1 c2 c3 c4 c5 show ?thesis
    by (simp add: tile_3x2_def tile_1x1_def)
qed

section \<open>The loaders and the fixed buffer of \<^verbatim>\<open>randomforest.py\<close>\<close>


lemma loader_Inr:
  "bind_result (append_loop body [] image_path) (\<lambda>images.
     bind_result (append_loop (extract_classification w) [] label_path) (\<lambda>labels.
     Inr (images, labels))) = Inr (im, l) \<longleftrightarrow>
   list_all2 (\<lambda>x v. body x = Inr v) image_path im \<and>
   list_all2 (\<lambda>x c. extract_classification w x = Inr c) label_path l"
  by (auto simp: bind_result_eq_Inr append_loop_Inr)

lemma list_all2_Inr_unique:
  "list_all2 (\<lambda>x c. f x = Inr c) xs ys \<Longrightarrow> list_all2 (\<lambda>x c. f x = Inr c) xs zs \<Longrightarrow> ys = zs"
proof (induction xs arbitrary: ys zs)
  case Nil
  then show ?case by simp
next
  case (Cons x xs)
  then show ?case by (auto simp: list_all2_Cons1)
qed

lemma rf_labels_loop_Inr:
  "\<forall>p \<in> set label_path. \<exists>r. ET_parse w p = Inr r \<Longrightarrow>
   rf_labels_loop w acc label_path =
     Inr (acc @ concat (map (\<lambda>p. case ET_parse w p of Inr r \<Rightarrow> map elem_text (iter ''name'' r) | Inl e \<Rightarrow> [])
                          label_path))"
proof (induction label_path arbitrary: acc)
  case Nil
  then show ?case by simp
next
  case (Cons p ps)
  then obtain r where "ET_parse w p = Inr r" by auto
  with Cons show ?case by simp
qed

lemma rf_vector_Inr:
  "rf_vector w img = Inr v \<Longrightarrow> length v = 50 * 50 * 4"
  by (auto simp: rf_vector_def bind_result_eq_Inr flatten_def split: option.splits
      dest!: set_channel_shape)

lemma rf_vector_success:
  assumes "gdal_Open w img = Some i" "4 \<le> length (bands i)"
  shows "(\<exists>v. rf_vector w img = Inr v) \<longleftrightarrow>
           (width i = 50 \<or> width i = 1) \<and> (height i = 50 \<or> height i = 1)"
    and "\<not> ((width i = 50 \<or> width i = 1) \<and> (height i = 50 \<or> height i = 1)) \<Longrightarrow>
           rf_vector w img = Inl ValueError"
proof -
  let ?band = "\<lambda>k. \<lparr>nrows = height i, ncols = width i, data2 = bands i ! k\<rparr>"
  let ?ok = "(width i = 50 \<or> width i = 1) \<and> (height i = 50 \<or> height i = 1)"
  have reads: "ReadAsArray (GetRasterBand i 4) = Inr (?band 3)" "ReadAsArray (GetRasterBand i 3) = Inr (?band 2)"
    "ReadAsArray (GetRasterBand i 2) = Inr (?band 1)" "ReadAsArray (GetRasterBand i 1) = Inr (?band 0)"
    using assms(2) by (simp_all add: GetRasterBand_def ReadAsArray_def)
  have bc: "broadcasts_to (?band k) 50 50 \<longleftrightarrow> ?ok" for k
    by (auto simp: broadcasts_to_def)
  have eq: "rf_vector w img =
          bind_result (set_channel (zeros 50 50 4) 0 (astype_float (?band 0))) (\<lambda>datas.
          bind_result (set_channel datas 1 (astype_float (?band 1))) (\<lambda>datas.
          bind_result (set_channel datas 2 (astype_float (?band 2))) (\<lambda>datas.
          bind_result (set_channel datas 3 (astype_float (?band 3))) (\<lambda>datas.
          Inr (flatten datas)))))"
    using assms(1) reads by (simp add: rf_vector_def)
  show bad: "rf_vector w img = Inl ValueError" if "\<not> ?ok"
  proof -
    have "\<not> broadcasts_to (astype_float (?band 0)) (dim0 (zeros 50 50 4)) (dim1 (zeros 50 50 4))"
      using that bc[of 0] by simp
    then have "set_channel (zeros 50 50 4) 0 (astype_float (?band 0)) = Inl ValueError"
      by (rule set_channel_fails)
    then show ?thesis by (simp add: eq)
  qed
  have good: "\<exists>v. rf_vector w img = Inr v" if ok: ?ok
  proof -
    have b: "broadcasts_to (astype_float (?band k)) 50 50" for k
      using ok bc[of k] by simp
    obtain d0 where d0: "set_channel (zeros 50 50 4) 0 (astype_float (?band 0)) = Inr d0"
      using set_channel_ok[of "astype_float (?band 0)" "zeros 50 50 4" 0] b[of 0] by auto
    have s0: "dim0 d0 = 50" "dim1 d0 = 50" using set_channel_shape[OF d0] by simp_all
    obtain d1 where d1: "set_channel d0 1 (astype_float (?band 1)) = Inr d1"
      using set_channel_ok[of "astype_float (?band 1)" d0 1] b[of 1] s0 by auto
    have s1: "dim0 d1 = 50" "dim1 d1 = 50" using set_channel_shape[OF d1] s0 by simp_all
    obtain d2 where d2: "set_channel d1 2 (astype_float (?band 2)) = Inr d2"
      using set_channel_ok[of "astype_float (?band 2)" d1 2] b[of 2] s1 by auto
    have s2: "dim0 d2 = 50" "dim1 d2 = 50" using set_channel_shape[OF d2] s1 by simp_all
    obtain d3 where d3: "set_channel d2 3 (astype_float (?band 3)) = Inr d3"
      using set_channel_ok[of "astype_float (?band 3)" d2 3] b[of 3] s2 by auto
    have "rf_vector w img = Inr (flatten d3)"
      by (simp only: eq d0 d1 d2 d3 bind_result_Inr)
    then show ?thesis by blast
  qed
  show "(\<exists>v. rf_vector w img = Inr v) \<longleftrightarrow> ?ok"
    using good bad by (cases ?ok) auto
qed

lemma rf_vector_projr:
  "\<exists>v. rf_vector w img = Inr v \<Longrightarrow>
   rf_vector w img = Inr (projr (rf_vector w img)) \<and> length (projr (rf_vector w img)) = 10000"
  using rf_vector_Inr[of w img] by auto

section \<open>Augmentation and labels\<close>


text \<open>
  Claim C7. When the three loaders return on the same paths, the labels of
  \<^verbatim>\<open>augment_flip\<close>, of \<^verbatim>\<open>augment_flip_rotate_90\<close> and of
  \<^verbatim>\<open>preprocess_training_data\<close> are the same list, so the combined labels of the
  script are that list three times in order.
\<close>

theorem augmentation_preserves_labels:
  assumes "preprocess_training_data L w image_path label_path = Inr (images, labels)"
    and "augment_flip L w image_path label_path = Inr (augmented_images, augmented_labels)"
    and "augment_flip_rotate_90 L w image_path label_path = Inr (augmented_images2, augmented_labels2)"
  shows "augmented_labels = augmented_labels2 \<and> augmented_labels = labels \<and>
         labels @ augmented_labels @ augmented_labels2 = labels @ labels @ labels \<and>
         (get_training_data w ''Inputs/training_data_attempt_1'' = Inr (image_path, label_path) \<longrightarrow>
            combined_data L w =
              Inr (images @ augmented_images @ augmented_images2, labels @ labels @ labels))"
proof -
  have l1: "list_all2 (\<lambda>x c. extract_classification w x = Inr c) label_path labels"
    using assms(1) unfolding preprocess_training_data_def loader_Inr by simp
  have l2: "list_all2 (\<lambda>x c. extract_classification w x = Inr c) label_path augmented_labels"
    using assms(2) unfolding augment_flip_def loader_Inr by simp
  have l3: "list_all2 (\<lambda>x c. extract_classification w x = Inr c) label_path augmented_labels2"
    using assms(3) unfolding augment_flip_rotate_90_def loader_Inr by simp
  have a: "augmented_labels = labels" using l2 l1 by (rule list_all2_Inr_unique)
  have b: "augmented_labels2 = labels" using l3 l1 by (rule list_all2_Inr_unique)
  show ?thesis
    using assms a b by (simp add: combined_data_def)
qed

theorem augmentation_preserves_labels_witness:
  "preprocess_training_data sample_libs sample_world
     [''Inputs/training_data_attempt_1/images/a.tif'', ''Inputs/training_data_attempt_1/images/b.tif'']
     [''Inputs/training_data_attempt_1/labels/a.xml'', ''Inputs/training_data_attempt_1/labels/b.xml''] =
     Inr ([[20, 21, 22, 20, 21, 22, 30, 31, 32, 30, 31, 32],
           [20, 21, 22, 20, 21, 22, 30, 31, 32, 30, 31, 32]],
          [Some ''building'', Some ''road'']) \<and>
   augment_flip sample_libs sample_world
     [''Inputs/training_data_attempt_1/images/a.tif'', ''Inputs/training_data_attempt_1/images/b.tif'']
     [''Inputs/training_data_attempt_1/labels/a.xml'', ''Inputs/training_data_attempt_1/labels/b.xml''] =
     Inr ([[30, 31, 32, 30, 31, 32, 20, 21, 22, 20, 21, 22],
           [30, 31, 32, 30, 31, 32, 20, 21, 22, 20, 21, 22]],
          [Some ''building'', Some ''road'']) \<and>
   augment_flip_rotate_90 sample_libs sample_world
     [''Inputs/training_data_attempt_1/images/a.tif'', ''Inputs/training_data_attempt_1/images/b.tif'']
     [''Inputs/training_data_attempt_1/labels/a.xml'', ''Inputs/training_data_attempt_1/labels/b.xml''] =
     Inr ([[0, 0, 0, 0, 0, 0, 0, 0, 0, 0, 0, 0], [0, 0, 0, 0, 0, 0, 0, 0, 0, 0, 0, 0]],
          [Some ''building'', Some ''road'']) \<and>
   get_training_data sample_world ''Inputs/training_data_attempt_1'' =
     Inr ([''Inputs/training_data_attempt_1/images/a.tif'', ''Inputs/training_data_attempt_1/images/b.tif''],
          [''Inputs/training_data_attempt_1/labels/a.xml'', ''Inputs/training_data_attempt_1/labels/b.xml'']) \<and>
   combined_data sample_libs sample_world =
     Inr ([[20, 21, 22, 20, 21, 22, 30, 31, 32, 30, 31, 32],
           [20, 21, 22, 20, 21, 22, 30, 31, 32, 30, 31, 32],
           [30, 31, 32, 30, 31, 32, 20, 21, 22, 20, 21, 22],
           [30, 31, 32, 30, 31, 32, 20, 21, 22, 20, 21, 22],
           [0, 0, 0, 0, 0, 0, 0, 0, 0, 0, 0, 0], [0, 0, 0, 0, 0, 0, 0, 0, 0, 0, 0, 0]],
          [Some ''building'', Some ''road'', Some ''building'', Some ''road'',
           Some ''building'', Some ''road''])"
proof -
  have h1: "preprocess_training_data sample_libs sample_world
     [''Inputs/training_data_attempt_1/images/a.tif'', ''Inputs/training_data_attempt_1/images/b.tif'']
     [''Inputs/training_data_attempt_1/labels/a.xml'', ''Inputs/training_data_attempt_1/labels/b.xml''] =
     Inr ([[20, 21, 22, 20, 21, 22, 30, 31, 32, 30, 31, 32],
           [20, 21, 22, 20, 21, 22, 30, 31, 32, 30, 31, 32]],
          [Some ''building'', Some ''road''])"
    by code_simp
  have h2: "augment_flip sample_libs sample_world
     [''Inputs/training_data_attempt_1/images/a.tif'', ''Inputs/training_data_attempt_1/images/b.tif'']
     [''Inputs/training_data_attempt_1/labels/a.xml'', ''Inputs/training_data_attempt_1/labels/b.xml''] =
     Inr ([[30, 31, 32, 30, 31, 32, 20, 21, 22, 20, 21, 22],
           [30, 31, 32, 30, 31, 32, 20, 21, 22, 20, 21, 22]],
          [Some ''building'', Some ''road''])"
    by code_simp
  have h3: "augment_flip_rotate_90 sample_libs sample_world
     [''Inputs/training_data_attempt_1/images/a.tif'', ''Inputs/training_data_attempt_1/images/b.tif'']
     [''Inputs/training_data_attempt_1/labels/a.xml'', ''Inputs/training_data_attempt_1/labels/b.xml''] =
     Inr ([[0, 0, 0, 0, 0, 0, 0, 0, 0, 0, 0, 0], [0, 0, 0, 0, 0, 0, 0, 0, 0, 0, 0, 0]],
          [Some ''building'', Some ''road''])"
    by code_simp
  have h4: "get_training_data sample_world ''Inputs/training_data_attempt_1'' =
     Inr ([''Inputs/training_data_attempt_1/images/a.tif'', ''Inputs/training_data_attempt_1/images/b.tif''],
          [''Inputs/training_data_attempt_1/labels/a.xml'', ''Inputs/training_data_attempt_1/labels/b.xml''])"
    by code_simp
  from augmentation_preserves_labels[OF h1 h2 h3] h1 h2 h3 h4 show ?thesis by simp
qed

section \<open>Lengths of the feature vectors and alignment with the labels\<close>


lemma warp_shape_ok_sample: "warp_shape_ok sample_libs"
  by (auto simp: warp_shape_ok_def sample_libs_def)

lemma loader_vector_lengths:
  assumes "list_all2 (\<lambda>x v. bind_result (preprocess_image w x) body = Inr v) image_path images"
    and "\<And>nX nY red green blue alpha v.
           body (nX, nY, red, green, blue, alpha) = Inr v \<Longrightarrow> length v = nX * nY * 3"
  shows "list_all2 (\<lambda>img v. \<exists>ds. rasterio_open w img = Inr ds \<and> length v = width ds * height ds * 3)
           image_path images"
  using assms(1)
proof (rule list_all2_mono)
  fix x v
  assume "bind_result (preprocess_image w x) body = Inr v"
  then obtain vals where p: "preprocess_image w x = Inr vals" and b: "body vals = Inr v"
    by (auto simp: bind_result_eq_Inr)
  from p obtain ds where ds: "rasterio_open w x = Inr ds"
    and vals: "vals = (width ds, height ds,
                \<lparr>nrows = height ds, ncols = width ds, data2 = bands ds ! 0\<rparr>,
                \<lparr>nrows = height ds, ncols = width ds, data2 = bands ds ! 1\<rparr>,
                \<lparr>nrows = height ds, ncols = width ds, data2 = bands ds ! 2\<rparr>,
                \<lparr>nrows = height ds, ncols = width ds, data2 = bands ds ! 3\<rparr>)"
    unfolding preprocess_image_Inr by blast
  from b have "length v = width ds * height ds * 3"
    unfolding vals by (rule assms(2))
  with ds show "\<exists>ds. rasterio_open w x = Inr ds \<and> length v = width ds * height ds * 3"
    by blast
qed

lemma rf_load_Inr:
  "rf_load w image_path labels_path = Inr (images, labels) \<longleftrightarrow>
     list_all2 (\<lambda>x v. rf_vector w x = Inr v) image_path images \<and>
     rf_labels_loop w [] labels_path = Inr labels"
  by (auto simp: rf_load_def bind_result_eq_Inr append_loop_Inr)

text \<open>
  Claim C1, as stated, fails in \<^verbatim>\<open>randomforest.py\<close>: the buffer is always
  \<open>(50, 50, 4)\<close>, so a raster of one pixel, which NumPy broadcasts into the buffer,
  gives a vector of 10000 entries and not of \<open>1 * 1 * 4\<close>.
\<close>

theorem rf_vector_length_fixed:
  "gdal_Open sample_world ''pixel.tif'' = Some tile_1x1 \<and>
   width tile_1x1 * height tile_1x1 * 4 = 4 \<and>
   map_sum id length (rf_vector sample_world ''pixel.tif'') = Inr 10000"
proof -
  have g: "gdal_Open sample_world ''pixel.tif'' = Some tile_1x1"
    by (simp add: sample_world_def)
  have "4 \<le> length (bands tile_1x1)" "width tile_1x1 = 1" "height tile_1x1 = 1"
    by (simp_all add: tile_1x1_def)
  then obtain v where v: "rf_vector sample_world ''pixel.tif'' = Inr v"
    using rf_vector_success(1)[OF g] by auto
  from rf_vector_Inr[OF v] v g show ?thesis
    by (simp add: tile_1x1_def)
qed

text \<open>
  Claim C1, amended. Every vector appended by \<^verbatim>\<open>preprocess_training_data\<close> and by
  \<^verbatim>\<open>augment_flip\<close> has length width * height * 3 of its raster, and so has every
  vector appended by \<^verbatim>\<open>augment_flip_rotate_90\<close> when \<^verbatim>\<open>cv2.warpAffine\<close> returns an
  image of the requested size; every vector appended by the image loop of
  \<^verbatim>\<open>randomforest.py\<close> has length 50 * 50 * 4, whatever the size of the raster.
\<close>

theorem feature_vector_lengths:
  "(preprocess_training_data L w image_path label_path = Inr (images, labels) \<longrightarrow>
      list_all2 (\<lambda>img v. \<exists>ds. rasterio_open w img = Inr ds \<and> length v = width ds * height ds * 3)
        image_path images) \<and>
   (augment_flip L w image_path label_path = Inr (images, labels) \<longrightarrow>
      list_all2 (\<lambda>img v. \<exists>ds. rasterio_open w img = Inr ds \<and> length v = width ds * height ds * 3)
        image_path images) \<and>
   (warp_shape_ok L \<and> augment_flip_rotate_90 L w image_path label_path = Inr (images, labels) \<longrightarrow>
      list_all2 (\<lambda>img v. \<exists>ds. rasterio_open w img = Inr ds \<and> length v = width ds * height ds * 3)
        image_path images) \<and>
   (rf_load w image_path label_path = Inr (images, labels) \<longrightarrow>
      list_all2 (\<lambda>img v. length v = 50 * 50 * 4) image_path images)"
proof (intro conjI impI)
  assume "preprocess_training_data L w image_path label_path = Inr (images, labels)"
  then have "list_all2 (\<lambda>x v. bind_result (preprocess_image w x) (training_vector L) = Inr v)
               image_path images"
    unfolding preprocess_training_data_def loader_Inr by simp
  then show "list_all2 (\<lambda>img v. \<exists>ds. rasterio_open w img = Inr ds \<and> length v = width ds * height ds * 3)
        image_path images"
    by (rule loader_vector_lengths) (rule training_vector_length)
next
  assume "augment_flip L w image_path label_path = Inr (images, labels)"
  then have "list_all2 (\<lambda>x v. bind_result (preprocess_image w x) (flip_vector L) = Inr v)
               image_path images"
    unfolding augment_flip_def loader_Inr by simp
  then show "list_all2 (\<lambda>img v. \<exists>ds. rasterio_open w img = Inr ds \<and> length v = width ds * height ds * 3)
        image_path images"
    by (rule loader_vector_lengths) (rule flip_vector_length)
next
  assume a: "warp_shape_ok L \<and> augment_flip_rotate_90 L w image_path label_path = Inr (images, labels)"
  then have ok: "warp_shape_ok L" by simp
  from a have "list_all2 (\<lambda>x v. bind_result (preprocess_image w x) (rotate_vector L) = Inr v)
               image_path images"
    unfolding augment_flip_rotate_90_def loader_Inr by simp
  then show "list_all2 (\<lambda>img v. \<exists>ds. rasterio_open w img = Inr ds \<and> length v = width ds * height ds * 3)
        image_path images"
    by (rule loader_vector_lengths) (rule rotate_vector_length[OF ok])
next
  assume "rf_load w image_path label_path = Inr (images, labels)"
  then have "list_all2 (\<lambda>x v. rf_vector w x = Inr v) image_path images"
    unfolding rf_load_Inr by simp
  then show "list_all2 (\<lambda>img v. length v = 50 * 50 * 4) image_path images"
    by (rule list_all2_mono) (rule rf_vector_Inr)
qed

theorem feature_vector_lengths_witness:
  "preprocess_training_data sample_libs sample_world
     [''Inputs/training_data_attempt_1/images/a.tif''] [] =
     Inr ([[20, 21, 22, 20, 21, 22, 30, 31, 32, 30, 31, 32]], []) \<and>
   list_all2 (\<lambda>img v. \<exists>ds. rasterio_open sample_world img = Inr ds \<and>
                 length v = width ds * height ds * 3)
     [''Inputs/training_data_attempt_1/images/a.tif'']
     [[20::real, 21, 22, 20, 21, 22, 30, 31, 32, 30, 31, 32]] \<and>
   augment_flip sample_libs sample_world [''wide.tif''] [] =
     Inr ([[4, 4, 4, 4, 4, 4, 6, 6, 6, 6, 6, 6, 2, 2, 2, 2, 2, 2]], []) \<and>
   list_all2 (\<lambda>img v. \<exists>ds. rasterio_open sample_world img = Inr ds \<and>
                 length v = width ds * height ds * 3)
     [''wide.tif''] [[4::real, 4, 4, 4, 4, 4, 6, 6, 6, 6, 6, 6, 2, 2, 2, 2, 2, 2]] \<and>
   warp_shape_ok sample_libs \<and>
   augment_flip_rotate_90 sample_libs sample_world [''wide.tif''] [] =
     Inr ([[0, 0, 0, 0, 0, 0, 0, 0, 0, 0, 0, 0, 0, 0, 0, 0, 0, 0]], []) \<and>
   list_all2 (\<lambda>img v. \<exists>ds. rasterio_open sample_world img = Inr ds \<and>
                 length v = width ds * height ds * 3)
     [''wide.tif''] [[0::real, 0, 0, 0, 0, 0, 0, 0, 0, 0, 0, 0, 0, 0, 0, 0, 0, 0]] \<and>
   rf_load sample_world [''pixel.tif''] [] = Inr ([projr (rf_vector sample_world ''pixel.tif'')], []) \<and>
   list_all2 (\<lambda>img v. length v = 50 * 50 * 4) [''pixel.tif'']
     [projr (rf_vector sample_world ''pixel.tif'')]"
proof -
  have h1: "preprocess_training_data sample_libs sample_world
     [''Inputs/training_data_attempt_1/images/a.tif''] [] =
     Inr ([[20, 21, 22, 20, 21, 22, 30, 31, 32, 30, 31, 32]], [])"
    by code_simp
  have h2: "augment_flip sample_libs sample_world [''wide.tif''] [] =
     Inr ([[4, 4, 4, 4, 4, 4, 6, 6, 6, 6, 6, 6, 2, 2, 2, 2, 2, 2]], [])"
    by code_simp
  have h3a: "warp_shape_ok sample_libs" by (rule warp_shape_ok_sample)
  have h3b: "augment_flip_rotate_90 sample_libs sample_world [''wide.tif''] [] =
     Inr ([[0, 0, 0, 0, 0, 0, 0, 0, 0, 0, 0, 0, 0, 0, 0, 0, 0, 0]], [])"
    by code_simp
  have g: "gdal_Open sample_world ''pixel.tif'' = Some tile_1x1"
    by (simp add: sample_world_def)
  have "4 \<le> length (bands tile_1x1)" "width tile_1x1 = 1" "height tile_1x1 = 1"
    by (simp_all add: tile_1x1_def)
  then have "\<exists>v. rf_vector sample_world ''pixel.tif'' = Inr v"
    using rf_vector_success(1)[OF g] by auto
  then have v: "rf_vector sample_world ''pixel.tif'' = Inr (projr (rf_vector sample_world ''pixel.tif''))"
    using rf_vector_projr by blast
  have la: "list_all2 (\<lambda>x v. rf_vector sample_world x = Inr v) [''pixel.tif'']
              [projr (rf_vector sample_world ''pixel.tif'')]"
    using v by simp
  have ll: "rf_labels_loop sample_world [] [] = Inr []" by simp
  have h4: "rf_load sample_world [''pixel.tif''] [] =
              Inr ([projr (rf_vector sample_world ''pixel.tif'')], [])"
    using la ll by (simp only: rf_load_Inr)
  note c1 = feature_vector_lengths[THEN conjunct1, THEN mp, OF h1]
  note c2 = feature_vector_lengths[THEN conjunct2, THEN conjunct1, THEN mp, OF h2]
  note c3 = feature_vector_lengths[THEN conjunct2, THEN conjunct2, THEN conjunct1, THEN mp,
      OF conjI[OF h3a h3b]]
  note c4 = feature_vector_lengths[THEN conjunct2, THEN conjunct2, THEN conjunct2, THEN mp, OF h4]
  show ?thesis
    by (intro conjI) (rule h1 c1 h2 c2 h3a h3b c3 h4 c4)+
qed

text \<open>
  The loaders of \<^verbatim>\<open>3_randomforest.py\<close> return one vector per image path and one label
  per label path, the label of the annotation at the same index.
\<close>

lemma loaders_aligned:
  assumes "preprocess_training_data L w image_path label_path = Inr (images, labels)
         \<or> augment_flip L w image_path label_path = Inr (images, labels)
         \<or> augment_flip_rotate_90 L w image_path label_path = Inr (images, labels)"
  shows "length images = length image_path \<and> length labels = length label_path \<and>
         (\<forall>i < length label_path. extract_classification w (label_path ! i) = Inr (labels ! i))"
proof -
  from assms obtain body where
    "list_all2 (\<lambda>x v. bind_result (preprocess_image w x) body = Inr v) image_path images"
    "list_all2 (\<lambda>x c. extract_classification w x = Inr c) label_path labels"
    unfolding preprocess_training_data_def augment_flip_def augment_flip_rotate_90_def loader_Inr
    by blast
  then show ?thesis
    by (auto simp: list_all2_conv_all_nth)
qed


text \<open>
  The label loop of \<^verbatim>\<open>randomforest.py\<close> appends one label for every \<^verbatim>\<open>name\<close>
  element of every annotation.
\<close>

lemma rf_load_label_count:
  assumes "rf_load w image_path labels_path = Inr (images, labels)"
  shows "length images = length image_path \<and>
         labels = concat (map (\<lambda>p. case ET_parse w p of
                                      Inr r \<Rightarrow> map elem_text (iter ''name'' r) | Inl e \<Rightarrow> [])
                            labels_path)"
proof -
  from assms have i: "list_all2 (\<lambda>x v. rf_vector w x = Inr v) image_path images"
    and l: "rf_labels_loop w [] labels_path = Inr labels"
    unfolding rf_load_Inr by simp_all
  have "\<forall>p \<in> set labels_path. \<exists>r. ET_parse w p = Inr r"
  proof (rule ccontr)
    assume "\<not> (\<forall>p \<in> set labels_path. \<exists>r. ET_parse w p = Inr r)"
    then obtain p e where "p \<in> set labels_path" "ET_parse w p = Inl e"
      by (metis sum.exhaust)
    then have "\<exists>e'. rf_labels_loop w acc labels_path = Inl e'" for acc
    proof (induction labels_path arbitrary: acc)
      case Nil
      then show ?case by simp
    next
      case (Cons a ps)
      then show ?case by (cases "ET_parse w a") auto
    qed
    from this[of "[]"] l show False by simp
  qed
  then have "rf_labels_loop w [] labels_path =
     Inr ([] @ concat (map (\<lambda>p. case ET_parse w p of Inr r \<Rightarrow> map elem_text (iter ''name'' r) | Inl e \<Rightarrow> [])
                          labels_path))"
    by (rule rf_labels_loop_Inr)
  with l i show ?thesis
    by (auto dest: list_all2_lengthD)
qed

text \<open>
  Claim C3 is broken by \<^verbatim>\<open>randomforest.py\<close>: on one image whose annotation has two
  \<^verbatim>\<open>name\<close> elements its loops return one image vector and two labels, where the
  claim (and \<^verbatim>\<open>extract_classification\<close> of \<^verbatim>\<open>3_randomforest.py\<close>) has one label
  per annotation file.
\<close>

theorem rf_load_misaligned:
  "map_sum id (\<lambda>r. (length (fst r), length (snd r)))
     (rf_load sample_world [''tile.tif''] [''Inputs/training_data_attempt_1/labels/b.xml'']) = Inr (1, 2)"
proof -
  have g: "gdal_Open sample_world ''tile.tif'' = Some tile_50x50"
    by (simp add: sample_world_def)
  have "4 \<le> length (bands tile_50x50)" "width tile_50x50 = 50" "height tile_50x50 = 50"
    by (simp_all add: tile_50x50_def)
  then obtain v where v: "rf_vector sample_world ''tile.tif'' = Inr v"
    using rf_vector_success(1)[OF g] by auto
  have l: "rf_labels_loop sample_world [] [''Inputs/training_data_attempt_1/labels/b.xml''] =
             Inr [Some ''building'', Some ''road'']"
    by (simp add: sample_world_def two_objects_xml_def)
  have la: "list_all2 (\<lambda>x v. rf_vector sample_world x = Inr v) [''tile.tif''] [v]"
    using v by simp
  have "rf_load sample_world [''tile.tif''] [''Inputs/training_data_attempt_1/labels/b.xml''] =
          Inr ([v], [Some ''building'', Some ''road''])"
    using la l by (simp only: rf_load_Inr)
  then show ?thesis by (simp only: map_sum.simps fst_conv snd_conv list.size id_apply) simp
qed

section \<open>Shapes of the rasters\<close>


lemma unmasked_rgb_square:
  assumes "nrows red = nY" "ncols red = nX" "nrows green = nY" "ncols green = nX"
    "nrows blue = nY" "ncols blue = nX"
  shows "nX \<noteq> nY \<Longrightarrow> unmasked_rgb nX nY red green blue = Inl ValueError"
    and "nX = nY \<Longrightarrow> \<exists>rgb. unmasked_rgb nX nY red green blue = Inr rgb"
proof -
  show "unmasked_rgb nX nY red green blue = Inl ValueError" if "nX \<noteq> nY"
  proof -
    have "\<not> broadcasts_to (astype_float red) (dim0 (zeros nX nY 3)) (dim1 (zeros nX nY 3))"
      using that assms by (auto simp: broadcasts_to_def)
    then have "set_channel (zeros nX nY 3) 0 (astype_float red) = Inl ValueError"
      by (rule set_channel_fails)
    then show ?thesis by (simp add: unmasked_rgb_def)
  qed
  show "\<exists>rgb. unmasked_rgb nX nY red green blue = Inr rgb" if "nX = nY"
  proof -
    have b: "broadcasts_to (astype_float red) nX nY" "broadcasts_to (astype_float green) nX nY"
      "broadcasts_to (astype_float blue) nX nY"
      using that assms by (simp_all add: broadcasts_to_def)
    obtain d0 where d0: "set_channel (zeros nX nY 3) 0 (astype_float red) = Inr d0"
      using set_channel_ok[of "astype_float red" "zeros nX nY 3" 0] b by auto
    have s0: "dim0 d0 = nX" "dim1 d0 = nY" using set_channel_shape[OF d0] by simp_all
    obtain d1 where d1: "set_channel d0 1 (astype_float green) = Inr d1"
      using set_channel_ok[of "astype_float green" d0 1] b s0 by auto
    have s1: "dim0 d1 = nX" "dim1 d1 = nY" using set_channel_shape[OF d1] s0 by simp_all
    obtain d2 where d2: "set_channel d1 2 (astype_float blue) = Inr d2"
      using set_channel_ok[of "astype_float blue" d1 2] b s1 by auto
    have "unmasked_rgb nX nY red green blue = Inr d2"
      by (simp only: unmasked_rgb_def d0 d1 d2 bind_result_Inr)
    then show ?thesis by blast
  qed
qed

lemma resized_rgb_ok:
  assumes "resize L mr (nX, nY) = Inr a" "resize L mg (nX, nY) = Inr b" "resize L mb (nX, nY) = Inr c"
    and "broadcasts_to a nX nY" "broadcasts_to b nX nY" "broadcasts_to c nX nY"
  shows "\<exists>rgb. resized_rgb L nX nY (mr, mg, mb) = Inr rgb"
proof -
  obtain d0 where d0: "set_channel (zeros nX nY 3) 0 a = Inr d0"
    using set_channel_ok[of a "zeros nX nY 3" 0] assms(4) by auto
  have s0: "dim0 d0 = nX" "dim1 d0 = nY" using set_channel_shape[OF d0] by simp_all
  obtain d1 where d1: "set_channel d0 1 b = Inr d1"
    using set_channel_ok[of b d0 1] assms(5) s0 by auto
  have s1: "dim0 d1 = nX" "dim1 d1 = nY" using set_channel_shape[OF d1] s0 by simp_all
  obtain d2 where d2: "set_channel d1 2 c = Inr d2"
    using set_channel_ok[of c d1 2] assms(6) s1 by auto
  have "resized_rgb L nX nY (mr, mg, mb) = Inr d2"
    by (simp only: resized_rgb_def prod.case assms(1-3) d0 d1 d2 bind_result_Inr)
  then show ?thesis by blast
qed

lemma reshape3_Inr: "(\<exists>a. reshape3 v d0 d1 d2 = Inr a) \<longleftrightarrow> length v = d0 * d1 * d2"
  by (simp add: reshape3_def)

lemma square_of_2500: "(n::nat) * n * 3 = 50 * 50 * 3 \<Longrightarrow> n = 50"
proof -
  assume "n * n * 3 = 50 * 50 * 3"
  then have "n * n = 50 * 50" by simp
  then have "n\<^sup>2 = 50\<^sup>2" by (simp add: power2_eq_square)
  then show "n = 50" by (simp only: power2_eq_iff_nonneg[OF zero_le zero_le])
qed


lemma preprocess_image_shapes:
  assumes "preprocess_image w img = Inr (nX, nY, red, green, blue, alpha)"
  shows "nrows red = nY \<and> ncols red = nX \<and> nrows green = nY \<and> ncols green = nX \<and>
         nrows blue = nY \<and> ncols blue = nX \<and> nrows alpha = nY \<and> ncols alpha = nX"
  using assms unfolding preprocess_image_Inr by auto

text \<open>
  Claim C9, as stated, fails in \<^verbatim>\<open>randomforest.py\<close>: a raster 50 pixels wide and one
  pixel high is not square, and the assignments into the \<open>(50, 50, 4)\<close> buffer
  succeed by broadcasting.
\<close>

theorem non_square_raster_accepted:
  "gdal_Open sample_world ''strip.tif'' = Some tile_50x1 \<and>
   width tile_50x1 = 50 \<and> height tile_50x1 = 1 \<and>
   map_sum id length (rf_vector sample_world ''strip.tif'') = Inr 10000"
proof -
  have g: "gdal_Open sample_world ''strip.tif'' = Some tile_50x1"
    by (simp add: sample_world_def)
  have d: "4 \<le> length (bands tile_50x1)" "width tile_50x1 = 50" "height tile_50x1 = 1"
    by (simp_all add: tile_50x1_def)
  then obtain v where v: "rf_vector sample_world ''strip.tif'' = Inr v"
    using rf_vector_success(1)[OF g] by auto
  from rf_vector_Inr[OF v] v g d show ?thesis by simp
qed

text \<open>
  Claim C9, amended. In \<^verbatim>\<open>preprocess_training_data\<close> the assignment of a band of
  shape (height, width) into the \<open>(nX, nY, 3)\<close> array raises \<^verbatim>\<open>ValueError\<close> on every
  raster that is not square and succeeds on a square one, and a vector it returns
  passes \<^verbatim>\<open>reshape(50, 50, 3)\<close> only when the raster is 50 by 50. In
  \<^verbatim>\<open>randomforest.py\<close> the assignments into the \<open>(50, 50, 4)\<close> buffer succeed exactly
  when the width is 50 or 1 and the height is 50 or 1, raise \<^verbatim>\<open>ValueError\<close>
  otherwise, and every vector returned passes \<^verbatim>\<open>reshape(50, 50, 4)\<close>.
\<close>

theorem raster_shape_preconditions:
  "(preprocess_image w img = Inr (nX, nY, red, green, blue, alpha) \<and> nX \<noteq> nY \<longrightarrow>
      training_vector L (nX, nY, red, green, blue, alpha) = Inl ValueError) \<and>
   (preprocess_image w img = Inr (nX, nY, red, green, blue, alpha) \<and> nX = nY \<longrightarrow>
      (\<exists>rgb. unmasked_rgb nX nY red green blue = Inr rgb)) \<and>
   (preprocess_image w img = Inr (nX, nY, red, green, blue, alpha) \<and>
      training_vector L (nX, nY, red, green, blue, alpha) = Inr v \<and>
      reshape3 v 50 50 3 = Inr a \<longrightarrow> nX = 50 \<and> nY = 50) \<and>
   (gdal_Open w img = Some i \<and> 4 \<le> length (bands i) \<and>
      (width i = 50 \<or> width i = 1) \<and> (height i = 50 \<or> height i = 1) \<longrightarrow>
      (\<exists>u. rf_vector w img = Inr u)) \<and>
   (gdal_Open w img = Some i \<and> 4 \<le> length (bands i) \<and>
      \<not> ((width i = 50 \<or> width i = 1) \<and> (height i = 50 \<or> height i = 1)) \<longrightarrow>
      rf_vector w img = Inl ValueError) \<and>
   (rf_vector w img = Inr v \<longrightarrow> (\<exists>b. reshape3 v 50 50 4 = Inr b))"
proof (intro conjI impI)
  assume a: "preprocess_image w img = Inr (nX, nY, red, green, blue, alpha) \<and> nX \<noteq> nY"
  then have "unmasked_rgb nX nY red green blue = Inl ValueError"
    using preprocess_image_shapes[of w img nX nY red green blue alpha]
    by (intro unmasked_rgb_square(1)) auto
  then show "training_vector L (nX, nY, red, green, blue, alpha) = Inl ValueError"
    by (simp add: training_vector_def)
next
  assume a: "preprocess_image w img = Inr (nX, nY, red, green, blue, alpha) \<and> nX = nY"
  then show "\<exists>rgb. unmasked_rgb nX nY red green blue = Inr rgb"
    using preprocess_image_shapes[of w img nX nY red green blue alpha]
    by (intro unmasked_rgb_square(2)) auto
next
  assume a: "preprocess_image w img = Inr (nX, nY, red, green, blue, alpha) \<and>
      training_vector L (nX, nY, red, green, blue, alpha) = Inr v \<and> reshape3 v 50 50 3 = Inr a"
  then have s: "nrows red = nY" "ncols red = nX" "nrows green = nY" "ncols green = nX"
    "nrows blue = nY" "ncols blue = nX"
    using preprocess_image_shapes[of w img nX nY red green blue alpha] by auto
  have sq: "nX = nY"
  proof (rule ccontr)
    assume "nX \<noteq> nY"
    then have "unmasked_rgb nX nY red green blue = Inl ValueError"
      using s by (intro unmasked_rgb_square(1))
    then have "training_vector L (nX, nY, red, green, blue, alpha) = Inl ValueError"
      by (simp add: training_vector_def)
    with a show False by simp
  qed
  from a have "length v = nX * nY * 3" by (intro training_vector_length) auto
  moreover from a have "length v = 50 * 50 * 3"
    using reshape3_Inr[of v 50 50 3] by auto
  ultimately have "nX * nX * 3 = 50 * 50 * 3" using sq by simp
  then have "nX = 50" by (rule square_of_2500)
  with sq show "nX = 50" "nY = 50" by simp_all
next
  assume "gdal_Open w img = Some i \<and> 4 \<le> length (bands i) \<and>
      (width i = 50 \<or> width i = 1) \<and> (height i = 50 \<or> height i = 1)"
  then show "\<exists>u. rf_vector w img = Inr u"
    using rf_vector_success(1)[of w img i] by blast
next
  assume "gdal_Open w img = Some i \<and> 4 \<le> length (bands i) \<and>
      \<not> ((width i = 50 \<or> width i = 1) \<and> (height i = 50 \<or> height i = 1))"
  then show "rf_vector w img = Inl ValueError"
    using rf_vector_success(2)[of w img i] by blast
next
  assume "rf_vector w img = Inr v"
  then have "length v = 50 * 50 * 4" by (rule rf_vector_Inr)
  then show "\<exists>b. reshape3 v 50 50 4 = Inr b"
    by (simp add: reshape3_Inr)
qed


lemma masked_bands_Inr:
  assumes "nrows alpha = nrows red" "ncols alpha = ncols red"
    "nrows alpha = nrows green" "ncols alpha = ncols green"
    "nrows alpha = nrows blue" "ncols alpha = ncols blue"
  shows "masked_bands red green blue alpha =
           Inr (map fst (filter snd (zip (data2 red) (data2 (not_zero alpha)))),
                map fst (filter snd (zip (data2 green) (data2 (not_zero alpha)))),
                map fst (filter snd (zip (data2 blue) (data2 (not_zero alpha)))))"
  using assms by (simp add: masked_bands_def boolean_index_def not_zero_def)

lemma training_vector_ok:
  assumes shapes: "nrows red = n" "ncols red = n" "nrows green = n" "ncols green = n"
      "nrows blue = n" "ncols blue = n" "nrows alpha = n" "ncols alpha = n"
    and m: "masked_bands red green blue alpha = Inr (mr, mg, mb)"
    and r: "resize L mr (n, n) = Inr a" "resize L mg (n, n) = Inr b" "resize L mb (n, n) = Inr c"
    and bc: "broadcasts_to a n n" "broadcasts_to b n n" "broadcasts_to c n n"
  shows "\<exists>v. training_vector L (n, n, red, green, blue, alpha) = Inr v"
proof -
  obtain rgb0 where u: "unmasked_rgb n n red green blue = Inr rgb0"
    using unmasked_rgb_square(2)[of red n n green blue] shapes by auto
  obtain rgb where z: "resized_rgb L n n (mr, mg, mb) = Inr rgb"
    using resized_rgb_ok[OF r bc] by auto
  have "training_vector L (n, n, red, green, blue, alpha) = Inr (flatten rgb)"
    by (simp only: training_vector_def prod.case u m z bind_result_Inr)
  then show ?thesis by blast
qed

lemma sample_resize_ok:
  "xs \<noteq> [] \<Longrightarrow> \<exists>a. resize sample_libs xs (r, c) = Inr a \<and> broadcasts_to a r c"
  by (simp add: sample_libs_def sample_resize_def broadcasts_to_def)


lemma preprocess_image_tile:
  "preprocess_image sample_world ''tile.tif'' =
     Inr (50, 50, ones_50x50, ones_50x50, ones_50x50, ones_50x50)"
  by (simp add: preprocess_image_def sample_world_def tile_50x50_def dataset_read_def ones_50x50_def)

lemma training_vector_tile:
  "\<exists>v. training_vector sample_libs (50, 50, ones_50x50, ones_50x50, ones_50x50, ones_50x50) = Inr v"
proof -
  have m: "masked_bands ones_50x50 ones_50x50 ones_50x50 ones_50x50 =
             Inr (replicate 2500 1, replicate 2500 1, replicate 2500 1)"
    by (simp add: masked_bands_Inr) (simp add: ones_50x50_def not_zero_def zip_replicate)
  have ne: "replicate 2500 (1::int) \<noteq> []" by simp
  obtain a where a: "resize sample_libs (replicate 2500 1) (50, 50) = Inr a" "broadcasts_to a 50 50"
    using sample_resize_ok[OF ne, of 50 50] by auto
  show ?thesis
    by (rule training_vector_ok[OF _ _ _ _ _ _ _ _ m a(1) a(1) a(1) a(2) a(2) a(2)])
       (simp_all add: ones_50x50_def)
qed


theorem raster_shape_preconditions_witness:
  "preprocess_image sample_world ''wide.tif'' =
     Inr (3, 2, \<lparr>nrows = 2, ncols = 3, data2 = [1, 2, 3, 4, 5, 6]\<rparr>,
          \<lparr>nrows = 2, ncols = 3, data2 = [1, 2, 3, 4, 5, 6]\<rparr>,
          \<lparr>nrows = 2, ncols = 3, data2 = [1, 2, 3, 4, 5, 6]\<rparr>,
          \<lparr>nrows = 2, ncols = 3, data2 = [255, 255, 255, 255, 255, 255]\<rparr>) \<and>
   (3::nat) \<noteq> 2 \<and>
   training_vector sample_libs
     (3, 2, \<lparr>nrows = 2, ncols = 3, data2 = [1, 2, 3, 4, 5, 6]\<rparr>,
      \<lparr>nrows = 2, ncols = 3, data2 = [1, 2, 3, 4, 5, 6]\<rparr>,
      \<lparr>nrows = 2, ncols = 3, data2 = [1, 2, 3, 4, 5, 6]\<rparr>,
      \<lparr>nrows = 2, ncols = 3, data2 = [255, 255, 255, 255, 255, 255]\<rparr>) = Inl ValueError \<and>
   preprocess_image sample_world ''tile.tif'' =
     Inr (50, 50, ones_50x50, ones_50x50, ones_50x50, ones_50x50) \<and>
   (\<exists>rgb. unmasked_rgb 50 50 ones_50x50 ones_50x50 ones_50x50 = Inr rgb) \<and>
   training_vector sample_libs (50, 50, ones_50x50, ones_50x50, ones_50x50, ones_50x50) =
     Inr (projr (training_vector sample_libs (50, 50, ones_50x50, ones_50x50, ones_50x50, ones_50x50))) \<and>
   reshape3 (projr (training_vector sample_libs (50, 50, ones_50x50, ones_50x50, ones_50x50, ones_50x50)))
       50 50 3 =
     Inr \<lparr>dim0 = 50, dim1 = 50, dim2 = 3,
          data3 = projr (training_vector sample_libs
                    (50, 50, ones_50x50, ones_50x50, ones_50x50, ones_50x50))\<rparr> \<and>
   gdal_Open sample_world ''strip.tif'' = Some tile_50x1 \<and> 4 \<le> length (bands tile_50x1) \<and>
   width tile_50x1 = 50 \<and> height tile_50x1 = 1 \<and>
   (\<exists>u. rf_vector sample_world ''strip.tif'' = Inr u) \<and>
   (\<exists>b. reshape3 (projr (rf_vector sample_world ''strip.tif'')) 50 50 4 = Inr b) \<and>
   gdal_Open sample_world ''wide.tif'' = Some tile_3x2 \<and> 4 \<le> length (bands tile_3x2) \<and>
   width tile_3x2 = 3 \<and> height tile_3x2 = 2 \<and>
   rf_vector sample_world ''wide.tif'' = Inl ValueError"
proof -
  let ?R = "\<lparr>nrows = 2, ncols = 3, data2 = [1, 2, 3, 4, 5, 6::int]\<rparr>"
  let ?A = "\<lparr>nrows = 2, ncols = 3, data2 = [255, 255, 255, 255, 255, 255::int]\<rparr>"
  let ?T = "(50::nat, 50::nat, ones_50x50, ones_50x50, ones_50x50, ones_50x50)"
  let ?V = "projr (training_vector sample_libs ?T)"
  let ?U = "projr (rf_vector sample_world ''strip.tif'')"
  note rsp = raster_shape_preconditions
  have p1: "preprocess_image sample_world ''wide.tif'' = Inr (3, 2, ?R, ?R, ?R, ?A)"
    by (simp add: preprocess_image_def sample_world_def tile_3x2_def dataset_read_def)
  have n1: "(3::nat) \<noteq> 2" by simp
  have c1: "training_vector sample_libs (3, 2, ?R, ?R, ?R, ?A) = Inl ValueError"
    by (rule rsp[THEN conjunct1, THEN mp, OF conjI[OF p1 n1]])
  have p2: "preprocess_image sample_world ''tile.tif'' = Inr ?T"
    by (rule preprocess_image_tile)
  have c2: "\<exists>rgb. unmasked_rgb 50 50 ones_50x50 ones_50x50 ones_50x50 = Inr rgb"
    by (rule rsp[THEN conjunct2, THEN conjunct1, THEN mp, OF conjI[OF p2 refl]])
  have v: "training_vector sample_libs ?T = Inr ?V"
    using training_vector_tile by auto
  have "length ?V = 50 * 50 * 3"
    using v by (rule training_vector_length)
  then have r: "reshape3 ?V 50 50 3 = Inr \<lparr>dim0 = 50, dim1 = 50, dim2 = 3, data3 = ?V\<rparr>"
    by (simp add: reshape3_def)
  have c3: "(50::nat) = 50 \<and> (50::nat) = 50"
    by (rule rsp[THEN conjunct2, THEN conjunct2, THEN conjunct1, THEN mp, OF conjI[OF p2 conjI[OF v r]]])
  have g1: "gdal_Open sample_world ''strip.tif'' = Some tile_50x1"
    by (simp add: sample_world_def)
  have d1: "4 \<le> length (bands tile_50x1)" "width tile_50x1 = 50" "height tile_50x1 = 1"
    by (simp_all add: tile_50x1_def)
  have s1: "(width tile_50x1 = 50 \<or> width tile_50x1 = 1) \<and> (height tile_50x1 = 50 \<or> height tile_50x1 = 1)"
    using d1 by simp
  have c4: "\<exists>u. rf_vector sample_world ''strip.tif'' = Inr u"
    by (rule rsp[THEN conjunct2, THEN conjunct2, THEN conjunct2, THEN conjunct1, THEN mp,
          OF conjI[OF g1 conjI[OF d1(1) s1]]])
  then have u: "rf_vector sample_world ''strip.tif'' = Inr ?U" by auto
  have c6: "\<exists>b. reshape3 ?U 50 50 4 = Inr b"
    by (rule rsp[THEN conjunct2, THEN conjunct2, THEN conjunct2, THEN conjunct2, THEN conjunct2,
          THEN mp, OF u])
  have g2: "gdal_Open sample_world ''wide.tif'' = Some tile_3x2"
    by (simp add: sample_world_def)
  have d2: "4 \<le> length (bands tile_3x2)" "width tile_3x2 = 3" "height tile_3x2 = 2"
    by (simp_all add: tile_3x2_def)
  have s2: "\<not> ((width tile_3x2 = 50 \<or> width tile_3x2 = 1) \<and> (height tile_3x2 = 50 \<or> height tile_3x2 = 1))"
    using d2 by simp
  have c5: "rf_vector sample_world ''wide.tif'' = Inl ValueError"
    by (rule rsp[THEN conjunct2, THEN conjunct2, THEN conjunct2, THEN conjunct2, THEN conjunct1,
          THEN mp, OF conjI[OF g2 conjI[OF d2(1) s2]]])
  show ?thesis
    by (intro conjI) (rule p1 n1 c1 p2 c2 v r g1 d1 c4 c6 g2 d2 c5)+
qed

section \<open>Masking by the alpha band\<close>


lemma resized_rgb_calls:
  assumes "resized_rgb L nX nY (mr, mg, mb) = Inr rgb"
  shows "\<exists>a b c. resize L mr (nX, nY) = Inr a \<and> resize L mg (nX, nY) = Inr b \<and>
           resize L mb (nX, nY) = Inr c \<and>
           broadcasts_to a nX nY \<and> broadcasts_to b nX nY \<and> broadcasts_to c nX nY"
proof -
  from assms obtain a b c x y where
    r: "resize L mr (nX, nY) = Inr a" "resize L mg (nX, nY) = Inr b" "resize L mb (nX, nY) = Inr c" and
    x: "set_channel (zeros nX nY 3) 0 a = Inr x" and
    y: "set_channel x 1 b = Inr y" and
    z: "set_channel y 2 c = Inr rgb"
    unfolding resized_rgb_def by (auto simp: bind_result_eq_Inr)
  from set_channel_shape[OF x] set_channel_shape[OF y] set_channel_shape[OF z]
  have "broadcasts_to a nX nY" "broadcasts_to b nX nY" "broadcasts_to c nX nY" by simp_all
  with r show ?thesis by blast
qed

lemma boolean_index_band:
  assumes b: "nrows b = nY" "ncols b = nX" "length (data2 b) = nY * nX"
    and al: "nrows alpha = nY" "ncols alpha = nX" "length (data2 alpha) = nY * nX"
  shows "boolean_index b (not_zero alpha) =
           Inr (concat (map (\<lambda>i. map (\<lambda>j. at2 b i j) (filter (\<lambda>j. at2 alpha i j \<noteq> 0) [0 ..< nX]))
                          [0 ..< nY]))"
proof -
  have "nrows alpha = nrows b" "ncols alpha = ncols b"
    "length (data2 b) = nrows b * ncols b" "length (data2 alpha) = nrows b * ncols b"
    by (simp_all only: b al)
  from boolean_index_row_major[OF this] show ?thesis
    by (simp only: b)
qed

lemma boolean_index_band_flipped:
  assumes b: "nrows b = nY" "ncols b = nX"
    and al: "nrows alpha = nY" "ncols alpha = nX"
  shows "boolean_index (flipud b) (not_zero (flipud alpha)) =
           Inr (concat (map (\<lambda>i. map (\<lambda>j. at2 b (nY - 1 - i) j)
                                   (filter (\<lambda>j. at2 alpha (nY - 1 - i) j \<noteq> 0) [0 ..< nX]))
                          [0 ..< nY]))"
proof -
  have "nrows alpha = nrows b" "ncols alpha = ncols b"
    by (simp_all only: b al)
  from boolean_index_flipud[OF this] show ?thesis
    by (simp only: b)
qed

lemma preprocess_image_bands:
  assumes "rasterio_open w img = Inr ds" and "wf_dataset ds"
    and "preprocess_image w img = Inr (nX, nY, red, green, blue, alpha)"
  shows "nrows red = nY \<and> ncols red = nX \<and> length (data2 red) = nY * nX"
    and "nrows green = nY \<and> ncols green = nX \<and> length (data2 green) = nY * nX"
    and "nrows blue = nY \<and> ncols blue = nX \<and> length (data2 blue) = nY * nX"
    and "nrows alpha = nY \<and> ncols alpha = nX \<and> length (data2 alpha) = nY * nX"
proof -
  from assms(3) obtain ds' where o: "rasterio_open w img = Inr ds'" and n': "4 \<le> length (bands ds')"
    and v: "(nX, nY, red, green, blue, alpha) = (width ds', height ds',
                \<lparr>nrows = height ds', ncols = width ds', data2 = bands ds' ! 0\<rparr>,
                \<lparr>nrows = height ds', ncols = width ds', data2 = bands ds' ! 1\<rparr>,
                \<lparr>nrows = height ds', ncols = width ds', data2 = bands ds' ! 2\<rparr>,
                \<lparr>nrows = height ds', ncols = width ds', data2 = bands ds' ! 3\<rparr>)"
    unfolding preprocess_image_Inr by blast
  from o assms(1) have eq: "ds' = ds" by simp
  from n' eq have n: "4 \<le> length (bands ds)" by simp
  have len: "length (bands ds ! k) = height ds * width ds" if "k < 4" for k
  proof -
    from that n have "k < length (bands ds)" by simp
    moreover from assms(2) have "\<forall>k < length (bands ds). length (bands ds ! k) = height ds * width ds"
      by (simp add: wf_dataset_def list_all_length)
    ultimately show ?thesis by blast
  qed
  from v eq have d: "nX = width ds" "nY = height ds"
    "red = \<lparr>nrows = height ds, ncols = width ds, data2 = bands ds ! 0\<rparr>"
    "green = \<lparr>nrows = height ds, ncols = width ds, data2 = bands ds ! 1\<rparr>"
    "blue = \<lparr>nrows = height ds, ncols = width ds, data2 = bands ds ! 2\<rparr>"
    "alpha = \<lparr>nrows = height ds, ncols = width ds, data2 = bands ds ! 3\<rparr>"
    by simp_all
  show "nrows red = nY \<and> ncols red = nX \<and> length (data2 red) = nY * nX"
    using len[of 0] by (simp add: d)
  show "nrows green = nY \<and> ncols green = nX \<and> length (data2 green) = nY * nX"
    using len[of 1] by (simp add: d)
  show "nrows blue = nY \<and> ncols blue = nX \<and> length (data2 blue) = nY * nX"
    using len[of 2] by (simp add: d)
  show "nrows alpha = nY \<and> ncols alpha = nX \<and> length (data2 alpha) = nY * nX"
    using len[of 3] by (simp add: d)
qed

text \<open>
  Claim C5. For a raster whose bands have height * width samples, the masked arrays
  hold the red, green and blue samples at the positions where alpha is not zero, row
  by row and, in a row, column by column; in \<^verbatim>\<open>augment_flip\<close> the rows are taken from
  the last to the first, of the bands and of alpha alike. In the three loop bodies
  each masked array is then passed to \<^verbatim>\<open>resize\<close> with the output shape
  \<open>(nX, nY)\<close>, and the three results fill an \<open>(nX, nY, 3)\<close> array.
\<close>

theorem masked_bands_row_major:
  assumes "rasterio_open w img = Inr ds" and "wf_dataset ds"
    and "preprocess_image w img = Inr (nX, nY, red, green, blue, alpha)"
  shows
    "let sel = (\<lambda>band. concat (map (\<lambda>i. map (\<lambda>j. at2 band i j)
                                        (filter (\<lambda>j. at2 alpha i j \<noteq> 0) [0 ..< nX])) [0 ..< nY]));
         sel_flipped = (\<lambda>band. concat (map (\<lambda>i. map (\<lambda>j. at2 band (nY - 1 - i) j)
                                        (filter (\<lambda>j. at2 alpha (nY - 1 - i) j \<noteq> 0) [0 ..< nX]))
                                     [0 ..< nY]))
     in masked_bands red green blue alpha = Inr (sel red, sel green, sel blue) \<and>
        masked_bands (flipud red) (flipud green) (flipud blue) (flipud alpha) =
          Inr (sel_flipped red, sel_flipped green, sel_flipped blue) \<and>
        training_vector L (nX, nY, red, green, blue, alpha) =
          bind_result (unmasked_rgb nX nY red green blue) (\<lambda>rgb.
          bind_result (resized_rgb L nX nY (sel red, sel green, sel blue)) (\<lambda>rgb.
          Inr (flatten rgb))) \<and>
        flip_vector L (nX, nY, red, green, blue, alpha) =
          bind_result (resized_rgb L nX nY (sel_flipped red, sel_flipped green, sel_flipped blue))
            (\<lambda>rgb. Inr (flatten rgb)) \<and>
        rotate_vector L (nX, nY, red, green, blue, alpha) =
          bind_result (resized_rgb L nX nY (sel red, sel green, sel blue)) (\<lambda>rgb_flip.
          bind_result
            (warpAffine L rgb_flip (getRotationMatrix2D L (real nX / 2, real nY / 2) 90 1) (nY, nX))
            (\<lambda>rotated_rgb. Inr (flatten rotated_rgb))) \<and>
        (resized_rgb L nX nY (mr, mg, mb) = Inr rgb \<longrightarrow>
           (\<exists>a b c. resize L mr (nX, nY) = Inr a \<and> resize L mg (nX, nY) = Inr b \<and>
              resize L mb (nX, nY) = Inr c \<and>
              broadcasts_to a nX nY \<and> broadcasts_to b nX nY \<and> broadcasts_to c nX nY) \<and>
           dim0 rgb = nX \<and> dim1 rgb = nY \<and> dim2 rgb = 3)"
proof -
  let ?sel = "\<lambda>band. concat (map (\<lambda>i. map (\<lambda>j. at2 band i j)
                                        (filter (\<lambda>j. at2 alpha i j \<noteq> 0) [0 ..< nX])) [0 ..< nY])"
  let ?self = "\<lambda>band. concat (map (\<lambda>i. map (\<lambda>j. at2 band (nY - 1 - i) j)
                                        (filter (\<lambda>j. at2 alpha (nY - 1 - i) j \<noteq> 0) [0 ..< nX]))
                                     [0 ..< nY])"
  note s = preprocess_image_bands[OF assms]
  have bi: "boolean_index b (not_zero alpha) = Inr (?sel b)"
    if "nrows b = nY \<and> ncols b = nX \<and> length (data2 b) = nY * nX" for b
    using that s(4) by (intro boolean_index_band) simp_all
  have bf: "boolean_index (flipud b) (not_zero (flipud alpha)) = Inr (?self b)"
    if "nrows b = nY \<and> ncols b = nX \<and> length (data2 b) = nY * nX" for b
    using that s(4) by (intro boolean_index_band_flipped) simp_all
  have m: "masked_bands red green blue alpha = Inr (?sel red, ?sel green, ?sel blue)"
    by (simp only: masked_bands_def bi[OF s(1)] bi[OF s(2)] bi[OF s(3)] bind_result_Inr simp_thms)
  have mf: "masked_bands (flipud red) (flipud green) (flipud blue) (flipud alpha) =
              Inr (?self red, ?self green, ?self blue)"
    by (simp only: masked_bands_def bf[OF s(1)] bf[OF s(2)] bf[OF s(3)] bind_result_Inr simp_thms)
  have tv: "training_vector L (nX, nY, red, green, blue, alpha) =
          bind_result (unmasked_rgb nX nY red green blue) (\<lambda>rgb.
          bind_result (resized_rgb L nX nY (?sel red, ?sel green, ?sel blue)) (\<lambda>rgb.
          Inr (flatten rgb)))"
    by (simp only: training_vector_def prod.case m bind_result_Inr)
  have fv: "flip_vector L (nX, nY, red, green, blue, alpha) =
          bind_result (resized_rgb L nX nY (?self red, ?self green, ?self blue))
            (\<lambda>rgb. Inr (flatten rgb))"
    by (simp only: flip_vector_def prod.case mf bind_result_Inr)
  have rv: "rotate_vector L (nX, nY, red, green, blue, alpha) =
          bind_result (resized_rgb L nX nY (?sel red, ?sel green, ?sel blue)) (\<lambda>rgb_flip.
          bind_result
            (warpAffine L rgb_flip (getRotationMatrix2D L (real nX / 2, real nY / 2) 90 1) (nY, nX))
            (\<lambda>rotated_rgb. Inr (flatten rotated_rgb)))"
    by (simp only: rotate_vector_def prod.case m bind_result_Inr)
  have rz: "resized_rgb L nX nY (mr, mg, mb) = Inr rgb \<longrightarrow>
           (\<exists>a b c. resize L mr (nX, nY) = Inr a \<and> resize L mg (nX, nY) = Inr b \<and>
              resize L mb (nX, nY) = Inr c \<and>
              broadcasts_to a nX nY \<and> broadcasts_to b nX nY \<and> broadcasts_to c nX nY) \<and>
           dim0 rgb = nX \<and> dim1 rgb = nY \<and> dim2 rgb = 3"
  proof
    assume r: "resized_rgb L nX nY (mr, mg, mb) = Inr rgb"
    from resized_rgb_calls[OF r] resized_rgb_shape[OF r]
    show "(\<exists>a b c. resize L mr (nX, nY) = Inr a \<and> resize L mg (nX, nY) = Inr b \<and>
              resize L mb (nX, nY) = Inr c \<and>
              broadcasts_to a nX nY \<and> broadcasts_to b nX nY \<and> broadcasts_to c nX nY) \<and>
           dim0 rgb = nX \<and> dim1 rgb = nY \<and> dim2 rgb = 3"
      by (intro conjI) simp_all
  qed
  show ?thesis
    unfolding Let_def by (intro conjI m mf tv fv rv rz)
qed


theorem masked_bands_row_major_witness:
  "rasterio_open sample_world ''Inputs/training_data_attempt_1/images/a.tif'' = Inr tile_2x2 \<and>
   wf_dataset tile_2x2 \<and>
   preprocess_image sample_world ''Inputs/training_data_attempt_1/images/a.tif'' =
     Inr (2, 2, \<lparr>nrows = 2, ncols = 2, data2 = [10, 20, 30, 40]\<rparr>,
                \<lparr>nrows = 2, ncols = 2, data2 = [11, 21, 31, 41]\<rparr>,
                \<lparr>nrows = 2, ncols = 2, data2 = [12, 22, 32, 42]\<rparr>,
                \<lparr>nrows = 2, ncols = 2, data2 = [0, 255, 255, 0]\<rparr>) \<and>
   masked_bands \<lparr>nrows = 2, ncols = 2, data2 = [10, 20, 30, 40]\<rparr>
                \<lparr>nrows = 2, ncols = 2, data2 = [11, 21, 31, 41]\<rparr>
                \<lparr>nrows = 2, ncols = 2, data2 = [12, 22, 32, 42]\<rparr>
                \<lparr>nrows = 2, ncols = 2, data2 = [0, 255, 255, 0]\<rparr> =
     Inr ([20, 30], [21, 31], [22, 32]) \<and>
   masked_bands (flipud \<lparr>nrows = 2, ncols = 2, data2 = [10, 20, 30, 40]\<rparr>)
                (flipud \<lparr>nrows = 2, ncols = 2, data2 = [11, 21, 31, 41]\<rparr>)
                (flipud \<lparr>nrows = 2, ncols = 2, data2 = [12, 22, 32, 42]\<rparr>)
                (flipud \<lparr>nrows = 2, ncols = 2, data2 = [0, 255, 255, 0]\<rparr>) =
     Inr ([30, 20], [31, 21], [32, 22]) \<and>
   resized_rgb sample_libs 2 2 ([20, 30], [21, 31], [22, 32]) =
     Inr \<lparr>dim0 = 2, dim1 = 2, dim2 = 3,
          data3 = [20, 21, 22, 20, 21, 22, 30, 31, 32, 30, 31, 32]\<rparr> \<and>
   (\<exists>a b c. resize sample_libs [20, 30] (2, 2) = Inr a \<and> resize sample_libs [21, 31] (2, 2) = Inr b \<and>
      resize sample_libs [22, 32] (2, 2) = Inr c \<and>
      broadcasts_to a 2 2 \<and> broadcasts_to b 2 2 \<and> broadcasts_to c 2 2)"
proof -
  let ?R = "\<lparr>nrows = 2, ncols = 2, data2 = [10, 20, 30, 40::int]\<rparr>"
  let ?G = "\<lparr>nrows = 2, ncols = 2, data2 = [11, 21, 31, 41::int]\<rparr>"
  let ?B = "\<lparr>nrows = 2, ncols = 2, data2 = [12, 22, 32, 42::int]\<rparr>"
  let ?A = "\<lparr>nrows = 2, ncols = 2, data2 = [0, 255, 255, 0::int]\<rparr>"
  let ?RGB = "\<lparr>dim0 = 2, dim1 = 2, dim2 = 3,
          data3 = [20, 21, 22, 20, 21, 22, 30, 31, 32, 30, 31, 32::real]\<rparr>"
  let ?sel = "\<lambda>band. concat (map (\<lambda>i. map (\<lambda>j. at2 band i j)
                                        (filter (\<lambda>j. at2 ?A i j \<noteq> 0) [0 ..< 2])) [0 ..< 2])"
  let ?self = "\<lambda>band. concat (map (\<lambda>i. map (\<lambda>j. at2 band (2 - 1 - i) j)
                                        (filter (\<lambda>j. at2 ?A (2 - 1 - i) j \<noteq> 0) [0 ..< 2]))
                                     [0 ..< 2])"
  have h1: "rasterio_open sample_world ''Inputs/training_data_attempt_1/images/a.tif'' = Inr tile_2x2"
    by (simp add: sample_world_def)
  have h2: "wf_dataset tile_2x2"
    by (simp add: wf_dataset_def tile_2x2_def)
  have h3: "preprocess_image sample_world ''Inputs/training_data_attempt_1/images/a.tif'' =
     Inr (2, 2, ?R, ?G, ?B, ?A)"
    by (simp add: preprocess_image_def sample_world_def tile_2x2_def dataset_read_def)
  have h4: "resized_rgb sample_libs 2 2 ([20, 30], [21, 31], [22, 32]) = Inr ?RGB"
    by code_simp
  note t = masked_bands_row_major[OF h1 h2 h3, of sample_libs "[20, 30]" "[21, 31]" "[22, 32]" ?RGB,
      unfolded Let_def]
  have e: "?sel ?R = [20, 30]" "?sel ?G = [21, 31]" "?sel ?B = [22, 32]"
    by code_simp+
  have f: "?self ?R = [30, 20]" "?self ?G = [31, 21]" "?self ?B = [32, 22]"
    by code_simp+
  have c1: "masked_bands ?R ?G ?B ?A = Inr ([20, 30], [21, 31], [22, 32])"
    using t[THEN conjunct1] by (simp only: e)
  have c2: "masked_bands (flipud ?R) (flipud ?G) (flipud ?B) (flipud ?A) =
              Inr ([30, 20], [31, 21], [32, 22])"
    using t[THEN conjunct2, THEN conjunct1] by (simp only: f)
  have c3: "\<exists>a b c. resize sample_libs [20, 30] (2, 2) = Inr a \<and> resize sample_libs [21, 31] (2, 2) = Inr b \<and>
      resize sample_libs [22, 32] (2, 2) = Inr c \<and>
      broadcasts_to a 2 2 \<and> broadcasts_to b 2 2 \<and> broadcasts_to c 2 2"
    using t[THEN conjunct2, THEN conjunct2, THEN conjunct2, THEN conjunct2, THEN conjunct2, THEN mp, OF h4]
    by (rule conjunct1)
  show ?thesis
    by (intro conjI) (rule h1 h2 h3 c1 c2 h4 c3)+
qed

section \<open>Failures end the script\<close>


lemma loader_image_failure:
  assumes "\<forall>x \<in> set pre. \<exists>v. body x = Inr v" and "body bad = Inl e"
  shows "bind_result (append_loop body [] (pre @ bad # post)) k = Inl e"
proof -
  have "append_loop body [] (pre @ bad # post) = Inl e"
    using assms by (rule append_loop_first_failure)
  then show ?thesis by simp
qed

lemma loader_label_failure:
  assumes "\<exists>images. append_loop body [] image_path = Inr images"
    and "\<forall>x \<in> set pre. \<exists>c. g x = Inr c" and "g bad = Inl e"
  shows "bind_result (append_loop body [] image_path) (\<lambda>images.
           bind_result (append_loop g [] (pre @ bad # post)) (k images)) = Inl e"
proof -
  from assms(1) obtain images where i: "append_loop body [] image_path = Inr images" by blast
  have "append_loop g [] (pre @ bad # post) = Inl e"
    using assms(2,3) by (rule append_loop_first_failure)
  with i show ?thesis by simp
qed

lemma body_image_failure:
  "preprocess_image w img = Inl e \<Longrightarrow> bind_result (preprocess_image w img) body = Inl e"
  by simp

lemma combined_data_Inr:
  "combined_data L w = Inr r \<longleftrightarrow>
     (\<exists>image_path label_path r1 r2 r3.
        get_training_data w ''Inputs/training_data_attempt_1'' = Inr (image_path, label_path) \<and>
        preprocess_training_data L w image_path label_path = Inr r1 \<and>
        augment_flip L w image_path label_path = Inr r2 \<and>
        augment_flip_rotate_90 L w image_path label_path = Inr r3 \<and>
        r = (fst r1 @ fst r2 @ fst r3, snd r1 @ snd r2 @ snd r3))"
  by (auto simp: combined_data_def bind_result_eq_Inr)

lemma combined_data_stage_failure:
  assumes "get_training_data w ''Inputs/training_data_attempt_1'' = Inr (image_path, label_path)"
  shows "preprocess_training_data L w image_path label_path = Inl e \<Longrightarrow> combined_data L w = Inl e"
    and "preprocess_training_data L w image_path label_path = Inr r1 \<Longrightarrow>
         augment_flip L w image_path label_path = Inl e \<Longrightarrow> combined_data L w = Inl e"
    and "preprocess_training_data L w image_path label_path = Inr r1 \<Longrightarrow>
         augment_flip L w image_path label_path = Inr r2 \<Longrightarrow>
         augment_flip_rotate_90 L w image_path label_path = Inl e \<Longrightarrow> combined_data L w = Inl e"
proof -
  show "combined_data L w = Inl e" if "preprocess_training_data L w image_path label_path = Inl e"
    using assms that by (simp add: combined_data_def)
  show "combined_data L w = Inl e"
    if "preprocess_training_data L w image_path label_path = Inr r1"
      "augment_flip L w image_path label_path = Inl e"
    using assms that by (cases r1) (simp add: combined_data_def)
  show "combined_data L w = Inl e"
    if "preprocess_training_data L w image_path label_path = Inr r1"
      "augment_flip L w image_path label_path = Inr r2"
      "augment_flip_rotate_90 L w image_path label_path = Inl e"
    using assms that by (cases r1, cases r2) (simp add: combined_data_def)
qed

text \<open>
  Claim C6. Nothing is caught or translated: when the map file cannot be opened,
  \<^verbatim>\<open>get_training_data\<close> raises the exception of \<^verbatim>\<open>open\<close>; when the raster cannot be
  opened, \<^verbatim>\<open>preprocess_image\<close> raises the exception of \<^verbatim>\<open>rasterio.open\<close>, and on a
  raster with fewer than four bands it raises the \<^verbatim>\<open>IndexError\<close> of the band read;
  when the annotation does not parse, \<^verbatim>\<open>extract_classification\<close> raises the exception
  of \<^verbatim>\<open>ET.parse\<close>. Each of \<^verbatim>\<open>preprocess_training_data\<close>, \<^verbatim>\<open>augment_flip\<close> and
  \<^verbatim>\<open>augment_flip_rotate_90\<close> passes the exception of the first failing image or
  label on unchanged and returns nothing. The script ends with the exception of the
  first step that fails: \<^verbatim>\<open>get_training_data\<close>, then each of the three loaders in
  turn, so a missing image, a raster with too few bands or a malformed annotation
  named by the map file ends the script with that exception; and the script has a
  result only when all four steps returned.
\<close>


theorem errors_propagate:
  "(open_text w (p @ ''/map.txt'') = Inl e \<longrightarrow> get_training_data w p = Inl e) \<and>
   (rasterio_open w img = Inl e \<longrightarrow> preprocess_image w img = Inl e) \<and>
   (rasterio_open w img = Inr ds \<and> length (bands ds) < 4 \<longrightarrow> preprocess_image w img = Inl IndexError) \<and>
   (ET_parse w label = Inl e \<longrightarrow> extract_classification w label = Inl e) \<and>
   ((\<forall>x \<in> set pre. \<exists>v. bind_result (preprocess_image w x) (training_vector L) = Inr v) \<and>
      preprocess_image w img = Inl e \<longrightarrow>
      preprocess_training_data L w (pre @ img # post) label_path = Inl e) \<and>
   ((\<exists>images. append_loop (\<lambda>x. bind_result (preprocess_image w x) (training_vector L)) [] image_path
        = Inr images) \<and>
      (\<forall>x \<in> set pre. \<exists>c. extract_classification w x = Inr c) \<and>
      extract_classification w label = Inl e \<longrightarrow>
      preprocess_training_data L w image_path (pre @ label # post) = Inl e) \<and>
   (get_training_data w ''Inputs/training_data_attempt_1'' = Inl e \<longrightarrow> combined_data L w = Inl e) \<and>
   ((\<forall>x \<in> set pre. \<exists>v. bind_result (preprocess_image w x) (flip_vector L) = Inr v) \<and>
      preprocess_image w img = Inl e \<longrightarrow>
      augment_flip L w (pre @ img # post) label_path = Inl e) \<and>
   ((\<forall>x \<in> set pre. \<exists>v. bind_result (preprocess_image w x) (rotate_vector L) = Inr v) \<and>
      preprocess_image w img = Inl e \<longrightarrow>
      augment_flip_rotate_90 L w (pre @ img # post) label_path = Inl e) \<and>
   ((\<exists>images. append_loop (\<lambda>x. bind_result (preprocess_image w x) (flip_vector L)) [] image_path
        = Inr images) \<and>
      (\<forall>x \<in> set pre. \<exists>c. extract_classification w x = Inr c) \<and>
      extract_classification w label = Inl e \<longrightarrow>
      augment_flip L w image_path (pre @ label # post) = Inl e) \<and>
   ((\<exists>images. append_loop (\<lambda>x. bind_result (preprocess_image w x) (rotate_vector L)) [] image_path
        = Inr images) \<and>
      (\<forall>x \<in> set pre. \<exists>c. extract_classification w x = Inr c) \<and>
      extract_classification w label = Inl e \<longrightarrow>
      augment_flip_rotate_90 L w image_path (pre @ label # post) = Inl e) \<and>
   (get_training_data w ''Inputs/training_data_attempt_1'' = Inr (image_path, label_path) \<and>
      preprocess_training_data L w image_path label_path = Inl e \<longrightarrow>
      combined_data L w = Inl e) \<and>
   (get_training_data w ''Inputs/training_data_attempt_1'' = Inr (image_path, label_path) \<and>
      preprocess_training_data L w image_path label_path = Inr r1 \<and>
      augment_flip L w image_path label_path = Inl e \<longrightarrow>
      combined_data L w = Inl e) \<and>
   (get_training_data w ''Inputs/training_data_attempt_1'' = Inr (image_path, label_path) \<and>
      preprocess_training_data L w image_path label_path = Inr r1 \<and>
      augment_flip L w image_path label_path = Inr r2 \<and>
      augment_flip_rotate_90 L w image_path label_path = Inl e \<longrightarrow>
      combined_data L w = Inl e) \<and>
   (get_training_data w ''Inputs/training_data_attempt_1'' = Inr (pre @ img # post, label_path) \<and>
      (\<forall>x \<in> set pre. \<exists>v. bind_result (preprocess_image w x) (training_vector L) = Inr v) \<and>
      preprocess_image w img = Inl e \<longrightarrow>
      combined_data L w = Inl e) \<and>
   (get_training_data w ''Inputs/training_data_attempt_1'' = Inr (image_path, pre @ label # post) \<and>
      (\<exists>images. append_loop (\<lambda>x. bind_result (preprocess_image w x) (training_vector L)) [] image_path
        = Inr images) \<and>
      (\<forall>x \<in> set pre. \<exists>c. extract_classification w x = Inr c) \<and>
      extract_classification w label = Inl e \<longrightarrow>
      combined_data L w = Inl e) \<and>
   (combined_data L w = Inr r \<longrightarrow>
      (\<exists>ips lps s1 s2 s3.
         get_training_data w ''Inputs/training_data_attempt_1'' = Inr (ips, lps) \<and>
         preprocess_training_data L w ips lps = Inr s1 \<and>
         augment_flip L w ips lps = Inr s2 \<and>
         augment_flip_rotate_90 L w ips lps = Inr s3 \<and>
         r = (fst s1 @ fst s2 @ fst s3, snd s1 @ snd s2 @ snd s3)))"
proof -
  have c1: "open_text w (p @ ''/map.txt'') = Inl e \<longrightarrow> get_training_data w p = Inl e"
    using get_training_data_open_fails by blast
  have c2: "rasterio_open w img = Inl e \<longrightarrow> preprocess_image w img = Inl e"
    using preprocess_image_open_fails by blast
  have c3: "rasterio_open w img = Inr ds \<and> length (bands ds) < 4 \<longrightarrow>
              preprocess_image w img = Inl IndexError"
    using preprocess_image_few_bands by blast
  have c4: "ET_parse w label = Inl e \<longrightarrow> extract_classification w label = Inl e"
    using extract_classification_parse_fails by blast
  have img: "bind_result
               (append_loop (\<lambda>x. bind_result (preprocess_image w x) body) [] (pre @ img # post)) k =
             Inl e"
    if "(\<forall>x \<in> set pre. \<exists>v. bind_result (preprocess_image w x) body = Inr v) \<and>
        preprocess_image w img = Inl e" for body :: "raster_values \<Rightarrow> py_error + real list"
      and k :: "real list list \<Rightarrow> py_error + loaded"
  proof (rule loader_image_failure)
    show "\<forall>x \<in> set pre. \<exists>v. bind_result (preprocess_image w x) body = Inr v"
      using that by (rule conjunct1)
    show "bind_result (preprocess_image w img) body = Inl e"
      using that by simp
  qed
  have lab: "bind_result (append_loop (\<lambda>x. bind_result (preprocess_image w x) body) [] image_path)
               (\<lambda>images. bind_result (append_loop (extract_classification w) [] (pre @ label # post))
                  (\<lambda>labels. Inr (images, labels))) = Inl e"
    if "(\<exists>images. append_loop (\<lambda>x. bind_result (preprocess_image w x) body) [] image_path = Inr images) \<and>
        (\<forall>x \<in> set pre. \<exists>c. extract_classification w x = Inr c) \<and>
        extract_classification w label = Inl e" for body :: "raster_values \<Rightarrow> py_error + real list"
    using that by (intro loader_label_failure) simp_all
  have c5: "(\<forall>x \<in> set pre. \<exists>v. bind_result (preprocess_image w x) (training_vector L) = Inr v) \<and>
      preprocess_image w img = Inl e \<longrightarrow>
      preprocess_training_data L w (pre @ img # post) label_path = Inl e"
    unfolding preprocess_training_data_def using img by blast
  have c6: "(\<exists>images. append_loop (\<lambda>x. bind_result (preprocess_image w x) (training_vector L)) [] image_path
        = Inr images) \<and>
      (\<forall>x \<in> set pre. \<exists>c. extract_classification w x = Inr c) \<and>
      extract_classification w label = Inl e \<longrightarrow>
      preprocess_training_data L w image_path (pre @ label # post) = Inl e"
    unfolding preprocess_training_data_def using lab by blast
  have c7: "get_training_data w ''Inputs/training_data_attempt_1'' = Inl e \<longrightarrow> combined_data L w = Inl e"
    by (simp add: combined_data_def)
  have c8: "(\<forall>x \<in> set pre. \<exists>v. bind_result (preprocess_image w x) (flip_vector L) = Inr v) \<and>
      preprocess_image w img = Inl e \<longrightarrow>
      augment_flip L w (pre @ img # post) label_path = Inl e"
    unfolding augment_flip_def using img by blast
  have c9: "(\<forall>x \<in> set pre. \<exists>v. bind_result (preprocess_image w x) (rotate_vector L) = Inr v) \<and>
      preprocess_image w img = Inl e \<longrightarrow>
      augment_flip_rotate_90 L w (pre @ img # post) label_path = Inl e"
    unfolding augment_flip_rotate_90_def using img by blast
  have c10: "(\<exists>images. append_loop (\<lambda>x. bind_result (preprocess_image w x) (flip_vector L)) [] image_path
        = Inr images) \<and>
      (\<forall>x \<in> set pre. \<exists>c. extract_classification w x = Inr c) \<and>
      extract_classification w label = Inl e \<longrightarrow>
      augment_flip L w image_path (pre @ label # post) = Inl e"
    unfolding augment_flip_def using lab by blast
  have c11: "(\<exists>images. append_loop (\<lambda>x. bind_result (preprocess_image w x) (rotate_vector L)) [] image_path
        = Inr images) \<and>
      (\<forall>x \<in> set pre. \<exists>c. extract_classification w x = Inr c) \<and>
      extract_classification w label = Inl e \<longrightarrow>
      augment_flip_rotate_90 L w image_path (pre @ label # post) = Inl e"
    unfolding augment_flip_rotate_90_def using lab by blast
  have c12: "get_training_data w ''Inputs/training_data_attempt_1'' = Inr (image_path, label_path) \<and>
      preprocess_training_data L w image_path label_path = Inl e \<longrightarrow>
      combined_data L w = Inl e"
    using combined_data_stage_failure(1) by blast
  have c13: "get_training_data w ''Inputs/training_data_attempt_1'' = Inr (image_path, label_path) \<and>
      preprocess_training_data L w image_path label_path = Inr r1 \<and>
      augment_flip L w image_path label_path = Inl e \<longrightarrow>
      combined_data L w = Inl e"
    using combined_data_stage_failure(2) by blast
  have c14: "get_training_data w ''Inputs/training_data_attempt_1'' = Inr (image_path, label_path) \<and>
      preprocess_training_data L w image_path label_path = Inr r1 \<and>
      augment_flip L w image_path label_path = Inr r2 \<and>
      augment_flip_rotate_90 L w image_path label_path = Inl e \<longrightarrow>
      combined_data L w = Inl e"
    using combined_data_stage_failure(3) by blast
  have c15: "get_training_data w ''Inputs/training_data_attempt_1'' = Inr (pre @ img # post, label_path) \<and>
      (\<forall>x \<in> set pre. \<exists>v. bind_result (preprocess_image w x) (training_vector L) = Inr v) \<and>
      preprocess_image w img = Inl e \<longrightarrow>
      combined_data L w = Inl e"
    using c5 combined_data_stage_failure(1)[of w "pre @ img # post" label_path L e] by blast
  have c16: "get_training_data w ''Inputs/training_data_attempt_1'' = Inr (image_path, pre @ label # post) \<and>
      (\<exists>images. append_loop (\<lambda>x. bind_result (preprocess_image w x) (training_vector L)) [] image_path
        = Inr images) \<and>
      (\<forall>x \<in> set pre. \<exists>c. extract_classification w x = Inr c) \<and>
      extract_classification w label = Inl e \<longrightarrow>
      combined_data L w = Inl e"
    using c6 combined_data_stage_failure(1)[of w image_path "pre @ label # post" L e] by blast
  have c17: "combined_data L w = Inr r \<longrightarrow>
      (\<exists>ips lps s1 s2 s3.
         get_training_data w ''Inputs/training_data_attempt_1'' = Inr (ips, lps) \<and>
         preprocess_training_data L w ips lps = Inr s1 \<and>
         augment_flip L w ips lps = Inr s2 \<and>
         augment_flip_rotate_90 L w ips lps = Inr s3 \<and>
         r = (fst s1 @ fst s2 @ fst s3, snd s1 @ snd s2 @ snd s3))"
    unfolding combined_data_Inr by blast
  show ?thesis
    by (intro conjI) (rule c1 c2 c3 c4 c5 c6 c7 c8 c9 c10 c11 c12 c13 c14 c15 c16 c17)+
qed


theorem errors_propagate_witness:
  "open_text sample_world (''nowhere'' @ ''/map.txt'') = Inl FileNotFoundError \<and>
   get_training_data sample_world ''nowhere'' = Inl FileNotFoundError \<and>
   rasterio_open sample_world ''missing.tif'' = Inl RasterioIOError \<and>
   preprocess_image sample_world ''missing.tif'' = Inl RasterioIOError \<and>
   rasterio_open sample_world ''rgb.tif'' = Inr tile_rgb \<and>
   length (bands tile_rgb) < 4 \<and>
   preprocess_image sample_world ''rgb.tif'' = Inl IndexError \<and>
   ET_parse sample_world ''broken.xml'' = Inl ParseError \<and>
   extract_classification sample_world ''broken.xml'' = Inl ParseError \<and>
   bind_result (preprocess_image sample_world ''Inputs/training_data_attempt_1/images/a.tif'')
     (training_vector sample_libs) = Inr [20, 21, 22, 20, 21, 22, 30, 31, 32, 30, 31, 32] \<and>
   bind_result (preprocess_image sample_world ''Inputs/training_data_attempt_1/images/a.tif'')
     (flip_vector sample_libs) = Inr [30, 31, 32, 30, 31, 32, 20, 21, 22, 20, 21, 22] \<and>
   bind_result (preprocess_image sample_world ''Inputs/training_data_attempt_1/images/a.tif'')
     (rotate_vector sample_libs) = Inr [0, 0, 0, 0, 0, 0, 0, 0, 0, 0, 0, 0] \<and>
   extract_classification sample_world ''Inputs/training_data_attempt_1/labels/a.xml'' = Inr (Some
     ''building'') \<and>
   preprocess_training_data sample_libs sample_world
     ([''Inputs/training_data_attempt_1/images/a.tif''] @ ''missing.tif'' # [''rgb.tif''])
     [''broken.xml''] = Inl RasterioIOError \<and>
   preprocess_training_data sample_libs sample_world
     [''Inputs/training_data_attempt_1/images/a.tif'']
     ([''Inputs/training_data_attempt_1/labels/a.xml''] @ ''broken.xml'' #
     [''Inputs/training_data_attempt_1/labels/b.xml'']) = Inl ParseError \<and>
   get_training_data world_no_map ''Inputs/training_data_attempt_1'' = Inl FileNotFoundError \<and>
   combined_data sample_libs world_no_map = Inl FileNotFoundError \<and>
   augment_flip sample_libs sample_world ([''Inputs/training_data_attempt_1/images/a.tif''] @
     ''missing.tif'' # [''rgb.tif'']) [''broken.xml''] = Inl RasterioIOError \<and>
   augment_flip_rotate_90 sample_libs sample_world
     ([''Inputs/training_data_attempt_1/images/a.tif''] @ ''missing.tif'' # [''rgb.tif''])
     [''broken.xml''] = Inl RasterioIOError \<and>
   augment_flip sample_libs sample_world [''Inputs/training_data_attempt_1/images/a.tif'']
     ([''Inputs/training_data_attempt_1/labels/a.xml''] @ ''broken.xml'' #
     [''Inputs/training_data_attempt_1/labels/b.xml'']) = Inl ParseError \<and>
   augment_flip_rotate_90 sample_libs sample_world [''Inputs/training_data_attempt_1/images/a.tif'']
     ([''Inputs/training_data_attempt_1/labels/a.xml''] @ ''broken.xml'' #
     [''Inputs/training_data_attempt_1/labels/b.xml'']) = Inl ParseError \<and>
   get_training_data world_missing_image ''Inputs/training_data_attempt_1'' = Inr
     ([''Inputs/training_data_attempt_1/images/a.tif'',
     ''Inputs/training_data_attempt_1/images/b.tif''],
     [''Inputs/training_data_attempt_1/labels/a.xml'',
     ''Inputs/training_data_attempt_1/labels/b.xml'']) \<and>
   preprocess_training_data sample_libs world_missing_image
     [''Inputs/training_data_attempt_1/images/a.tif'',
     ''Inputs/training_data_attempt_1/images/b.tif'']
     [''Inputs/training_data_attempt_1/labels/a.xml'',
     ''Inputs/training_data_attempt_1/labels/b.xml''] = Inl RasterioIOError \<and>
   combined_data sample_libs world_missing_image = Inl RasterioIOError \<and>
   get_training_data sample_world ''Inputs/training_data_attempt_1'' = Inr
     ([''Inputs/training_data_attempt_1/images/a.tif'',
     ''Inputs/training_data_attempt_1/images/b.tif''],
     [''Inputs/training_data_attempt_1/labels/a.xml'',
     ''Inputs/training_data_attempt_1/labels/b.xml'']) \<and>
   preprocess_training_data libs_flip_fails sample_world
     [''Inputs/training_data_attempt_1/images/a.tif'',
     ''Inputs/training_data_attempt_1/images/b.tif'']
     [''Inputs/training_data_attempt_1/labels/a.xml'',
     ''Inputs/training_data_attempt_1/labels/b.xml''] = Inr ([[20, 21, 22, 20, 21, 22, 30, 31, 32,
     30, 31, 32], [20, 21, 22, 20, 21, 22, 30, 31, 32, 30, 31, 32]], [Some ''building'', Some
     ''road'']) \<and>
   augment_flip libs_flip_fails sample_world [''Inputs/training_data_attempt_1/images/a.tif'',
     ''Inputs/training_data_attempt_1/images/b.tif'']
     [''Inputs/training_data_attempt_1/labels/a.xml'',
     ''Inputs/training_data_attempt_1/labels/b.xml''] = Inl (LibraryError ''resize'') \<and>
   combined_data libs_flip_fails sample_world = Inl (LibraryError ''resize'') \<and>
   preprocess_training_data libs_warp_fails sample_world
     [''Inputs/training_data_attempt_1/images/a.tif'',
     ''Inputs/training_data_attempt_1/images/b.tif'']
     [''Inputs/training_data_attempt_1/labels/a.xml'',
     ''Inputs/training_data_attempt_1/labels/b.xml''] = Inr ([[20, 21, 22, 20, 21, 22, 30, 31, 32,
     30, 31, 32], [20, 21, 22, 20, 21, 22, 30, 31, 32, 30, 31, 32]], [Some ''building'', Some
     ''road'']) \<and>
   augment_flip libs_warp_fails sample_world [''Inputs/training_data_attempt_1/images/a.tif'',
     ''Inputs/training_data_attempt_1/images/b.tif'']
     [''Inputs/training_data_attempt_1/labels/a.xml'',
     ''Inputs/training_data_attempt_1/labels/b.xml''] = Inr ([[30, 31, 32, 30, 31, 32, 20, 21, 22,
     20, 21, 22], [30, 31, 32, 30, 31, 32, 20, 21, 22, 20, 21, 22]], [Some ''building'', Some
     ''road'']) \<and>
   augment_flip_rotate_90 libs_warp_fails sample_world
     [''Inputs/training_data_attempt_1/images/a.tif'',
     ''Inputs/training_data_attempt_1/images/b.tif'']
     [''Inputs/training_data_attempt_1/labels/a.xml'',
     ''Inputs/training_data_attempt_1/labels/b.xml''] = Inl (LibraryError ''warpAffine'') \<and>
   combined_data libs_warp_fails sample_world = Inl (LibraryError ''warpAffine'') \<and>
   get_training_data world_three_band_image ''Inputs/training_data_attempt_1'' = Inr
     ([''Inputs/training_data_attempt_1/images/a.tif''] @
     ''Inputs/training_data_attempt_1/images/b.tif'' # [],
     [''Inputs/training_data_attempt_1/labels/a.xml'',
     ''Inputs/training_data_attempt_1/labels/b.xml'']) \<and>
   bind_result (preprocess_image world_three_band_image
     ''Inputs/training_data_attempt_1/images/a.tif'') (training_vector sample_libs) = Inr [20, 21,
     22, 20, 21, 22, 30, 31, 32, 30, 31, 32] \<and>
   preprocess_image world_three_band_image ''Inputs/training_data_attempt_1/images/b.tif'' = Inl
     IndexError \<and>
   combined_data sample_libs world_three_band_image = Inl IndexError \<and>
   get_training_data world_broken_xml ''Inputs/training_data_attempt_1'' = Inr
     ([''Inputs/training_data_attempt_1/images/a.tif'',
     ''Inputs/training_data_attempt_1/images/b.tif''],
     [''Inputs/training_data_attempt_1/labels/a.xml''] @
     ''Inputs/training_data_attempt_1/labels/b.xml'' # []) \<and>
   append_loop (\<lambda>x. bind_result (preprocess_image world_broken_xml x) (training_vector
     sample_libs)) [] [''Inputs/training_data_attempt_1/images/a.tif'',
     ''Inputs/training_data_attempt_1/images/b.tif''] = Inr [[20, 21, 22, 20, 21, 22, 30, 31, 32,
     30, 31, 32], [20, 21, 22, 20, 21, 22, 30, 31, 32, 30, 31, 32]] \<and>
   extract_classification world_broken_xml ''Inputs/training_data_attempt_1/labels/a.xml'' = Inr
     (Some ''building'') \<and>
   extract_classification world_broken_xml ''Inputs/training_data_attempt_1/labels/b.xml'' = Inl
     ParseError \<and>
   combined_data sample_libs world_broken_xml = Inl ParseError \<and>
   combined_data sample_libs sample_world = Inr ([[20, 21, 22, 20, 21, 22, 30, 31, 32, 30, 31, 32],
     [20, 21, 22, 20, 21, 22, 30, 31, 32, 30, 31, 32], [30, 31, 32, 30, 31, 32, 20, 21, 22, 20, 21,
     22], [30, 31, 32, 30, 31, 32, 20, 21, 22, 20, 21, 22], [0, 0, 0, 0, 0, 0, 0, 0, 0, 0, 0, 0],
     [0, 0, 0, 0, 0, 0, 0, 0, 0, 0, 0, 0]], [Some ''building'', Some ''road''] @ [Some ''building'',
     Some ''road''] @ [Some ''building'', Some ''road'']) \<and>
   (\<exists>ips lps s1 s2 s3. get_training_data sample_world ''Inputs/training_data_attempt_1'' =
     Inr (ips, lps) \<and> preprocess_training_data sample_libs sample_world ips lps = Inr s1 \<and>
     augment_flip sample_libs sample_world ips lps = Inr s2 \<and> augment_flip_rotate_90
     sample_libs sample_world ips lps = Inr s3 \<and> ([[20, 21, 22, 20, 21, 22, 30, 31, 32, 30, 31,
     32], [20, 21, 22, 20, 21, 22, 30, 31, 32, 30, 31, 32], [30, 31, 32, 30, 31, 32, 20, 21, 22, 20,
     21, 22], [30, 31, 32, 30, 31, 32, 20, 21, 22, 20, 21, 22], [0, 0, 0, 0, 0, 0, 0, 0, 0, 0, 0,
     0], [0, 0, 0, 0, 0, 0, 0, 0, 0, 0, 0, 0]], [Some ''building'', Some ''road''] @ [Some
     ''building'', Some ''road''] @ [Some ''building'', Some ''road'']) = (fst s1 @ fst s2 @ fst s3,
     snd s1 @ snd s2 @ snd s3))"
proof -
  note k1 = errors_propagate[THEN conjunct1] and t1 = errors_propagate[THEN conjunct2]
  note k2 = t1[THEN conjunct1] and t2 = t1[THEN conjunct2]
  note k3 = t2[THEN conjunct1] and t3 = t2[THEN conjunct2]
  note k4 = t3[THEN conjunct1] and t4 = t3[THEN conjunct2]
  note k5 = t4[THEN conjunct1] and t5 = t4[THEN conjunct2]
  note k6 = t5[THEN conjunct1] and t6 = t5[THEN conjunct2]
  note k7 = t6[THEN conjunct1] and t7 = t6[THEN conjunct2]
  note k8 = t7[THEN conjunct1] and t8 = t7[THEN conjunct2]
  note k9 = t8[THEN conjunct1] and t9 = t8[THEN conjunct2]
  note k10 = t9[THEN conjunct1] and t10 = t9[THEN conjunct2]
  note k11 = t10[THEN conjunct1] and t11 = t10[THEN conjunct2]
  note k12 = t11[THEN conjunct1] and t12 = t11[THEN conjunct2]
  note k13 = t12[THEN conjunct1] and t13 = t12[THEN conjunct2]
  note k14 = t13[THEN conjunct1] and t14 = t13[THEN conjunct2]
  note k15 = t14[THEN conjunct1] and t15 = t14[THEN conjunct2]
  note k16 = t15[THEN conjunct1] and t16 = t15[THEN conjunct2]
  note k17 = t16
  have h1:
    "open_text sample_world (''nowhere'' @ ''/map.txt'') = Inl FileNotFoundError"
    by (simp add: sample_world_def)
  have c1:
    "get_training_data sample_world ''nowhere'' = Inl FileNotFoundError"
    by (rule k1[THEN mp, OF h1])
  have h2:
    "rasterio_open sample_world ''missing.tif'' = Inl RasterioIOError"
    by (simp add: sample_world_def)
  have c2:
    "preprocess_image sample_world ''missing.tif'' = Inl RasterioIOError"
    by (rule k2[THEN mp, OF h2])
  have h3a:
    "rasterio_open sample_world ''rgb.tif'' = Inr tile_rgb"
    by (simp add: sample_world_def)
  have h3b:
    "length (bands tile_rgb) < 4"
    by (simp add: tile_rgb_def)
  have c3:
    "preprocess_image sample_world ''rgb.tif'' = Inl IndexError"
    by (rule k3[THEN mp, OF conjI[OF h3a h3b]])
  have h4:
    "ET_parse sample_world ''broken.xml'' = Inl ParseError"
    by (simp add: sample_world_def)
  have c4:
    "extract_classification sample_world ''broken.xml'' = Inl ParseError"
    by (rule k4[THEN mp, OF h4])
  have hv:
    "bind_result (preprocess_image sample_world ''Inputs/training_data_attempt_1/images/a.tif'')
      (training_vector sample_libs) = Inr [20, 21, 22, 20, 21, 22, 30, 31, 32, 30, 31, 32]"
    by code_simp
  have hv_all:
    "\<forall>x \<in> set [''Inputs/training_data_attempt_1/images/a.tif'']. \<exists>v. bind_result
      (preprocess_image sample_world x) (training_vector sample_libs) = Inr v"
    using hv by simp
  have hv_loop:
    "\<exists>images. append_loop (\<lambda>x. bind_result (preprocess_image sample_world x)
      (training_vector sample_libs)) [] [''Inputs/training_data_attempt_1/images/a.tif''] = Inr
      images"
    using hv by simp
  have hvf:
    "bind_result (preprocess_image sample_world ''Inputs/training_data_attempt_1/images/a.tif'')
      (flip_vector sample_libs) = Inr [30, 31, 32, 30, 31, 32, 20, 21, 22, 20, 21, 22]"
    by code_simp
  have hvf_all:
    "\<forall>x \<in> set [''Inputs/training_data_attempt_1/images/a.tif'']. \<exists>v. bind_result
      (preprocess_image sample_world x) (flip_vector sample_libs) = Inr v"
    using hvf by simp
  have hvf_loop:
    "\<exists>images. append_loop (\<lambda>x. bind_result (preprocess_image sample_world x)
      (flip_vector sample_libs)) [] [''Inputs/training_data_attempt_1/images/a.tif''] = Inr images"
    using hvf by simp
  have hvr:
    "bind_result (preprocess_image sample_world ''Inputs/training_data_attempt_1/images/a.tif'')
      (rotate_vector sample_libs) = Inr [0, 0, 0, 0, 0, 0, 0, 0, 0, 0, 0, 0]"
    by code_simp
  have hvr_all:
    "\<forall>x \<in> set [''Inputs/training_data_attempt_1/images/a.tif'']. \<exists>v. bind_result
      (preprocess_image sample_world x) (rotate_vector sample_libs) = Inr v"
    using hvr by simp
  have hvr_loop:
    "\<exists>images. append_loop (\<lambda>x. bind_result (preprocess_image sample_world x)
      (rotate_vector sample_libs)) [] [''Inputs/training_data_attempt_1/images/a.tif''] = Inr
      images"
    using hvr by simp
  have hx:
    "extract_classification sample_world ''Inputs/training_data_attempt_1/labels/a.xml'' = Inr (Some
      ''building'')"
    by code_simp
  have hx_all:
    "\<forall>x \<in> set [''Inputs/training_data_attempt_1/labels/a.xml'']. \<exists>c.
      extract_classification sample_world x = Inr c"
    using hx by simp
  have c5:
    "preprocess_training_data sample_libs sample_world
      ([''Inputs/training_data_attempt_1/images/a.tif''] @ ''missing.tif'' # [''rgb.tif''])
      [''broken.xml''] = Inl RasterioIOError"
    by (rule k5[THEN mp, OF conjI[OF hv_all c2]])
  have c6:
    "preprocess_training_data sample_libs sample_world
      [''Inputs/training_data_attempt_1/images/a.tif'']
      ([''Inputs/training_data_attempt_1/labels/a.xml''] @ ''broken.xml'' #
      [''Inputs/training_data_attempt_1/labels/b.xml'']) = Inl ParseError"
    by (rule k6[THEN mp, OF conjI[OF hv_loop conjI[OF hx_all c4]]])
  have h7:
    "get_training_data world_no_map ''Inputs/training_data_attempt_1'' = Inl FileNotFoundError"
    by code_simp
  have c7:
    "combined_data sample_libs world_no_map = Inl FileNotFoundError"
    by (rule k7[THEN mp, OF h7])
  have c8:
    "augment_flip sample_libs sample_world ([''Inputs/training_data_attempt_1/images/a.tif''] @
      ''missing.tif'' # [''rgb.tif'']) [''broken.xml''] = Inl RasterioIOError"
    by (rule k8[THEN mp, OF conjI[OF hvf_all c2]])
  have c9:
    "augment_flip_rotate_90 sample_libs sample_world
      ([''Inputs/training_data_attempt_1/images/a.tif''] @ ''missing.tif'' # [''rgb.tif''])
      [''broken.xml''] = Inl RasterioIOError"
    by (rule k9[THEN mp, OF conjI[OF hvr_all c2]])
  have c10:
    "augment_flip sample_libs sample_world [''Inputs/training_data_attempt_1/images/a.tif'']
      ([''Inputs/training_data_attempt_1/labels/a.xml''] @ ''broken.xml'' #
      [''Inputs/training_data_attempt_1/labels/b.xml'']) = Inl ParseError"
    by (rule k10[THEN mp, OF conjI[OF hvf_loop conjI[OF hx_all c4]]])
  have c11:
    "augment_flip_rotate_90 sample_libs sample_world
      [''Inputs/training_data_attempt_1/images/a.tif'']
      ([''Inputs/training_data_attempt_1/labels/a.xml''] @ ''broken.xml'' #
      [''Inputs/training_data_attempt_1/labels/b.xml'']) = Inl ParseError"
    by (rule k11[THEN mp, OF conjI[OF hvr_loop conjI[OF hx_all c4]]])
  have g12:
    "get_training_data world_missing_image ''Inputs/training_data_attempt_1'' = Inr
      ([''Inputs/training_data_attempt_1/images/a.tif'',
      ''Inputs/training_data_attempt_1/images/b.tif''],
      [''Inputs/training_data_attempt_1/labels/a.xml'',
      ''Inputs/training_data_attempt_1/labels/b.xml''])"
    by code_simp
  have p12:
    "preprocess_training_data sample_libs world_missing_image
      [''Inputs/training_data_attempt_1/images/a.tif'',
      ''Inputs/training_data_attempt_1/images/b.tif'']
      [''Inputs/training_data_attempt_1/labels/a.xml'',
      ''Inputs/training_data_attempt_1/labels/b.xml''] = Inl RasterioIOError"
    by code_simp
  have c12:
    "combined_data sample_libs world_missing_image = Inl RasterioIOError"
    by (rule k12[THEN mp, OF conjI[OF g12 p12]])
  have g13:
    "get_training_data sample_world ''Inputs/training_data_attempt_1'' = Inr
      ([''Inputs/training_data_attempt_1/images/a.tif'',
      ''Inputs/training_data_attempt_1/images/b.tif''],
      [''Inputs/training_data_attempt_1/labels/a.xml'',
      ''Inputs/training_data_attempt_1/labels/b.xml''])"
    by code_simp
  have p13:
    "preprocess_training_data libs_flip_fails sample_world
      [''Inputs/training_data_attempt_1/images/a.tif'',
      ''Inputs/training_data_attempt_1/images/b.tif'']
      [''Inputs/training_data_attempt_1/labels/a.xml'',
      ''Inputs/training_data_attempt_1/labels/b.xml''] = Inr ([[20, 21, 22, 20, 21, 22, 30, 31, 32,
      30, 31, 32], [20, 21, 22, 20, 21, 22, 30, 31, 32, 30, 31, 32]], [Some ''building'', Some
      ''road''])"
    by code_simp
  have f13:
    "augment_flip libs_flip_fails sample_world [''Inputs/training_data_attempt_1/images/a.tif'',
      ''Inputs/training_data_attempt_1/images/b.tif'']
      [''Inputs/training_data_attempt_1/labels/a.xml'',
      ''Inputs/training_data_attempt_1/labels/b.xml''] = Inl (LibraryError ''resize'')"
    by code_simp
  have c13:
    "combined_data libs_flip_fails sample_world = Inl (LibraryError ''resize'')"
    by (rule k13[THEN mp, OF conjI[OF g13 conjI[OF p13 f13]]])
  have p14:
    "preprocess_training_data libs_warp_fails sample_world
      [''Inputs/training_data_attempt_1/images/a.tif'',
      ''Inputs/training_data_attempt_1/images/b.tif'']
      [''Inputs/training_data_attempt_1/labels/a.xml'',
      ''Inputs/training_data_attempt_1/labels/b.xml''] = Inr ([[20, 21, 22, 20, 21, 22, 30, 31, 32,
      30, 31, 32], [20, 21, 22, 20, 21, 22, 30, 31, 32, 30, 31, 32]], [Some ''building'', Some
      ''road''])"
    by code_simp
  have f14:
    "augment_flip libs_warp_fails sample_world [''Inputs/training_data_attempt_1/images/a.tif'',
      ''Inputs/training_data_attempt_1/images/b.tif'']
      [''Inputs/training_data_attempt_1/labels/a.xml'',
      ''Inputs/training_data_attempt_1/labels/b.xml''] = Inr ([[30, 31, 32, 30, 31, 32, 20, 21, 22,
      20, 21, 22], [30, 31, 32, 30, 31, 32, 20, 21, 22, 20, 21, 22]], [Some ''building'', Some
      ''road''])"
    by code_simp
  have r14:
    "augment_flip_rotate_90 libs_warp_fails sample_world
      [''Inputs/training_data_attempt_1/images/a.tif'',
      ''Inputs/training_data_attempt_1/images/b.tif'']
      [''Inputs/training_data_attempt_1/labels/a.xml'',
      ''Inputs/training_data_attempt_1/labels/b.xml''] = Inl (LibraryError ''warpAffine'')"
    by code_simp
  have c14:
    "combined_data libs_warp_fails sample_world = Inl (LibraryError ''warpAffine'')"
    by (rule k14[THEN mp, OF conjI[OF g13 conjI[OF p14 conjI[OF f14 r14]]]])
  have g15:
    "get_training_data world_three_band_image ''Inputs/training_data_attempt_1'' = Inr
      ([''Inputs/training_data_attempt_1/images/a.tif''] @
      ''Inputs/training_data_attempt_1/images/b.tif'' # [],
      [''Inputs/training_data_attempt_1/labels/a.xml'',
      ''Inputs/training_data_attempt_1/labels/b.xml''])"
    by code_simp
  have v15:
    "bind_result (preprocess_image world_three_band_image
      ''Inputs/training_data_attempt_1/images/a.tif'') (training_vector sample_libs) = Inr [20, 21,
      22, 20, 21, 22, 30, 31, 32, 30, 31, 32]"
    by code_simp
  have v15_all:
    "\<forall>x \<in> set [''Inputs/training_data_attempt_1/images/a.tif'']. \<exists>v. bind_result
      (preprocess_image world_three_band_image x) (training_vector sample_libs) = Inr v"
    using v15 by simp
  have e15:
    "preprocess_image world_three_band_image ''Inputs/training_data_attempt_1/images/b.tif'' = Inl
      IndexError"
    by code_simp
  have c15:
    "combined_data sample_libs world_three_band_image = Inl IndexError"
    by (rule k15[THEN mp, OF conjI[OF g15 conjI[OF v15_all e15]]])
  have g16:
    "get_training_data world_broken_xml ''Inputs/training_data_attempt_1'' = Inr
      ([''Inputs/training_data_attempt_1/images/a.tif'',
      ''Inputs/training_data_attempt_1/images/b.tif''],
      [''Inputs/training_data_attempt_1/labels/a.xml''] @
      ''Inputs/training_data_attempt_1/labels/b.xml'' # [])"
    by code_simp
  have i16:
    "append_loop (\<lambda>x. bind_result (preprocess_image world_broken_xml x) (training_vector
      sample_libs)) [] [''Inputs/training_data_attempt_1/images/a.tif'',
      ''Inputs/training_data_attempt_1/images/b.tif''] = Inr [[20, 21, 22, 20, 21, 22, 30, 31, 32,
      30, 31, 32], [20, 21, 22, 20, 21, 22, 30, 31, 32, 30, 31, 32]]"
    by code_simp
  have i16_ex:
    "\<exists>images. append_loop (\<lambda>x. bind_result (preprocess_image world_broken_xml x)
      (training_vector sample_libs)) [] [''Inputs/training_data_attempt_1/images/a.tif'',
      ''Inputs/training_data_attempt_1/images/b.tif''] = Inr images"
    using i16 by blast
  have x16:
    "extract_classification world_broken_xml ''Inputs/training_data_attempt_1/labels/a.xml'' = Inr
      (Some ''building'')"
    by code_simp
  have x16_all:
    "\<forall>x \<in> set [''Inputs/training_data_attempt_1/labels/a.xml'']. \<exists>c.
      extract_classification world_broken_xml x = Inr c"
    using x16 by simp
  have e16:
    "extract_classification world_broken_xml ''Inputs/training_data_attempt_1/labels/b.xml'' = Inl
      ParseError"
    by code_simp
  have c16:
    "combined_data sample_libs world_broken_xml = Inl ParseError"
    by (rule k16[THEN mp, OF conjI[OF g16 conjI[OF i16_ex conjI[OF x16_all e16]]]])
  have h17:
    "combined_data sample_libs sample_world = Inr ([[20, 21, 22, 20, 21, 22, 30, 31, 32, 30, 31,
      32], [20, 21, 22, 20, 21, 22, 30, 31, 32, 30, 31, 32], [30, 31, 32, 30, 31, 32, 20, 21, 22,
      20, 21, 22], [30, 31, 32, 30, 31, 32, 20, 21, 22, 20, 21, 22], [0, 0, 0, 0, 0, 0, 0, 0, 0, 0,
      0, 0], [0, 0, 0, 0, 0, 0, 0, 0, 0, 0, 0, 0]], [Some ''building'', Some ''road''] @ [Some
      ''building'', Some ''road''] @ [Some ''building'', Some ''road''])"
    by code_simp
  have c17:
    "\<exists>ips lps s1 s2 s3. get_training_data sample_world ''Inputs/training_data_attempt_1'' =
      Inr (ips, lps) \<and> preprocess_training_data sample_libs sample_world ips lps = Inr s1
      \<and> augment_flip sample_libs sample_world ips lps = Inr s2 \<and> augment_flip_rotate_90
      sample_libs sample_world ips lps = Inr s3 \<and> ([[20, 21, 22, 20, 21, 22, 30, 31, 32, 30,
      31, 32], [20, 21, 22, 20, 21, 22, 30, 31, 32, 30, 31, 32], [30, 31, 32, 30, 31, 32, 20, 21,
      22, 20, 21, 22], [30, 31, 32, 30, 31, 32, 20, 21, 22, 20, 21, 22], [0, 0, 0, 0, 0, 0, 0, 0, 0,
      0, 0, 0], [0, 0, 0, 0, 0, 0, 0, 0, 0, 0, 0, 0]], [Some ''building'', Some ''road''] @ [Some
      ''building'', Some ''road''] @ [Some ''building'', Some ''road'']) = (fst s1 @ fst s2 @ fst
      s3, snd s1 @ snd s2 @ snd s3)"
    by (rule k17[THEN mp, OF h17])
  show ?thesis
    by (intro conjI) (rule h1 c1 h2 c2 h3a h3b c3 h4 c4 hv hvf hvr hx c5 c6 h7 c7 c8 c9 c10 c11 g12 p12 c12 g13 p13 f13 c13 p14 f14 r14 c14 g15 v15 e15 c15 g16 i16 x16 e16 c16 h17 c17)+
qed

end
